theory Spec2Isabelle
  imports Main
begin

section \<open>The shared domain shape\<close>

text \<open>
  Every variant stores the same three entities (the \<^verbatim>\<open>types\<close> module at the end of
  \<^verbatim>\<open>src/unnamed/part_006\<close>): a page, a document that owns its pages and lists the
  workspaces it belongs to, and a workspace. A workspace that
  comes back from the simulated database carries its documents in the optional field
  \<^verbatim>\<open>documents?\<close>; the stores keep only \<^verbatim>\<open>id\<close> and \<^verbatim>\<open>name\<close>.
  A JavaScript \<^verbatim>\<open>Record<string, T>\<close> is a partial map from strings.
\<close>

record Page =
  page_id :: string
  page_title :: string
  page_content :: string

record Document =
  doc_id :: string
  doc_path :: string
  doc_title :: string
  doc_pages :: "Page list"
  doc_workspaceIds :: "string list"

record Workspace =
  ws_id :: string
  ws_name :: string
  ws_documents :: "Document list option"

type_synonym DocumentsState = "string \<rightharpoonup> Document"
type_synonym WorkspacesState = "string \<rightharpoonup> Workspace"

text \<open>A thrown JavaScript exception is a value: \<^verbatim>\<open>new Error(msg)\<close>, or the
  \<^verbatim>\<open>TypeError\<close> of reading a property of \<^verbatim>\<open>undefined\<close>.\<close>

datatype error = Error string | TypeError string

text \<open>
  The vanilla documents state is a plain object literal, so its prototype is
  \<^verbatim>\<open>Object.prototype\<close>, and \<^verbatim>\<open>state[key]\<close> reads through it: a key the object does
  not own still yields a value when it names one of the standard members of
  \<^verbatim>\<open>Object.prototype\<close> (functions, and for \<^verbatim>\<open>__proto__\<close> the prototype object itself). Such a
  value is truthy and has neither \<^verbatim>\<open>pages\<close> nor \<^verbatim>\<open>workspaceIds\<close>. An own property hides
  an inherited one of the same name.
\<close>

definition object_prototype_keys :: "string list" where
  "object_prototype_keys =
     [''constructor'', ''hasOwnProperty'', ''isPrototypeOf'', ''propertyIsEnumerable'',
      ''toLocaleString'', ''toString'', ''valueOf'', ''__proto__'',
      ''__defineGetter__'', ''__defineSetter__'', ''__lookupGetter__'', ''__lookupSetter__'']"

datatype 'v lookup = Own 'v | Inherited | Undefined

definition js_get :: "(string \<rightharpoonup> 'v) \<Rightarrow> string \<Rightarrow> 'v lookup" where
  "js_get obj key =
     (case obj key of
        Some v \<Rightarrow> Own v
      | None \<Rightarrow> if key \<in> set object_prototype_keys then Inherited else Undefined)"

section \<open>Runs: the store together with what the workflow did\<close>

text \<open>
  A workflow is run on a store and leaves a trace behind: every state change with the
  store it produced, every call of a simulated I/O operation with the store as it was when
  the call was made, and every line written to the console or the logger (its fixed text;
  the values printed after it are left out). The trace is what lets a theorem speak of
  "the state just before the failing step".
\<close>

datatype ('a, 's) event =
    Dispatched 'a 's
  | Awaited string 's
  | Console string

record ('a, 's) run =
  store :: 's
  trace :: "('a, 's) event list"

definition start :: "'s \<Rightarrow> ('a, 's) run" where
  "start s = \<lparr>store = s, trace = []\<rparr>"

definition mutate :: "'a \<Rightarrow> ('s \<Rightarrow> 's) \<Rightarrow> ('a, 's) run \<Rightarrow> ('a, 's) run" where
  "mutate a f r =
     (let s' = f (store r) in \<lparr>store = s', trace = trace r @ [Dispatched a s']\<rparr>)"

definition await :: "string \<Rightarrow> 'b \<Rightarrow> ('a, 's) run \<Rightarrow> 'b \<times> ('a, 's) run" where
  "await name result r = (result, r\<lparr>trace := trace r @ [Awaited name (store r)]\<rparr>)"

definition console :: "string \<Rightarrow> ('a, 's) run \<Rightarrow> ('a, 's) run" where
  "console line r = r\<lparr>trace := trace r @ [Console line]\<rparr>"

fun is_call :: "string \<Rightarrow> ('a, 's) event \<Rightarrow> bool" where
  "is_call name (Awaited n s) = (n = name)"
| "is_call name (Dispatched a s) = False"
| "is_call name (Console l) = False"

text \<open>The store as it was when the operation \<open>name\<close> was first called, and the events
  that came after that call.\<close>

fun state_at_call :: "string \<Rightarrow> ('a, 's) event list \<Rightarrow> 's option" where
  "state_at_call name [] = None"
| "state_at_call name (Awaited n s # es) =
     (if n = name then Some s else state_at_call name es)"
| "state_at_call name (Dispatched a s # es) = state_at_call name es"
| "state_at_call name (Console l # es) = state_at_call name es"

fun events_after_call :: "string \<Rightarrow> ('a, 's) event list \<Rightarrow> ('a, 's) event list" where
  "events_after_call name [] = []"
| "events_after_call name (e # es) =
     (if is_call name e then es else events_after_call name es)"

text \<open>The stores that the state changes among some events produced, in order.\<close>

fun snapshots :: "('a, 's) event list \<Rightarrow> 's list" where
  "snapshots [] = []"
| "snapshots (Dispatched a s # es) = s # snapshots es"
| "snapshots (Awaited n s # es) = snapshots es"
| "snapshots (Console l # es) = snapshots es"

section \<open>Vanilla Redux: handwritten actions, reducers and thunks\<close>

subsection \<open>Actions (\<^verbatim>\<open>src/unnamed/part_011\<close>)\<close>

datatype AppAction =
    DOCUMENT_ADDED Document
  | DOCUMENT_PAGE_ADDED string Page
  | DOCUMENT_REMOVED string
  | DOCUMENT_ADDED_TO_WORKSPACE string string
  | WORKSPACES_SET "Workspace list"

definition vanilla_addDocument :: "Document \<Rightarrow> AppAction" where
  "vanilla_addDocument document = DOCUMENT_ADDED document"

definition vanilla_addPage :: "string \<Rightarrow> Page \<Rightarrow> AppAction" where
  "vanilla_addPage documentId page = DOCUMENT_PAGE_ADDED documentId page"

definition vanilla_removeDocument :: "string \<Rightarrow> AppAction" where
  "vanilla_removeDocument documentId = DOCUMENT_REMOVED documentId"

definition vanilla_addDocumentToWorkspace :: "string \<Rightarrow> string \<Rightarrow> AppAction" where
  "vanilla_addDocumentToWorkspace documentId workspaceId =
     DOCUMENT_ADDED_TO_WORKSPACE documentId workspaceId"

definition vanilla_setWorkspaces :: "Workspace list \<Rightarrow> AppAction" where
  "vanilla_setWorkspaces payload = WORKSPACES_SET payload"

subsection \<open>Reducers (the \<^verbatim>\<open>reducers\<close> module in \<^verbatim>\<open>src/app/redux/vanilla/store.ts\<close>)\<close>

text \<open>
  The two update cases look the document up with \<^verbatim>\<open>state[action.payload.documentId]\<close>,
  return the state when the value is falsy, and otherwise write the copy back under
  \<^verbatim>\<open>existing.id\<close>, the id stored inside the document. When the lookup yields an inherited
  member, the guard \<^verbatim>\<open>!existing\<close> does not fire: \<^verbatim>\<open>[...existing.pages, page]\<close> spreads
  \<^verbatim>\<open>undefined\<close> and \<^verbatim>\<open>existing.workspaceIds.includes\<close> reads a property of
  \<^verbatim>\<open>undefined\<close>, and both throw a \<^verbatim>\<open>TypeError\<close>. A thrown exception is \<open>Inl\<close>.
\<close>

fun vanilla_documentsReducer :: "DocumentsState \<Rightarrow> AppAction \<Rightarrow> error + DocumentsState" where
  "vanilla_documentsReducer state (DOCUMENT_ADDED payload) =
     Inr (state(doc_id payload \<mapsto> payload))"
| "vanilla_documentsReducer state (DOCUMENT_PAGE_ADDED documentId page) =
     (case js_get state documentId of
        Undefined \<Rightarrow> Inr state
      | Inherited \<Rightarrow> Inl (TypeError ''existing.pages is not iterable'')
      | Own existing \<Rightarrow>
          Inr (state(doc_id existing \<mapsto>
                 existing\<lparr>doc_pages := doc_pages existing @ [page]\<rparr>)))"
| "vanilla_documentsReducer state (DOCUMENT_REMOVED documentId) =
     Inr (state(documentId := None))"
| "vanilla_documentsReducer state (DOCUMENT_ADDED_TO_WORKSPACE documentId workspaceId) =
     (case js_get state documentId of
        Undefined \<Rightarrow> Inr state
      | Inherited \<Rightarrow>
          Inl (TypeError ''Cannot read properties of undefined (reading includes)'')
      | Own existing \<Rightarrow>
          if workspaceId \<in> set (doc_workspaceIds existing) then Inr state
          else Inr (state(doc_id existing \<mapsto>
                      existing\<lparr>doc_workspaceIds :=
                                 doc_workspaceIds existing @ [workspaceId]\<rparr>)))"
| "vanilla_documentsReducer state (WORKSPACES_SET payload) = Inr state"

fun vanilla_workspacesReducer :: "WorkspacesState \<Rightarrow> AppAction \<Rightarrow> WorkspacesState" where
  "vanilla_workspacesReducer state (WORKSPACES_SET payload) =
     foldl (\<lambda>next workspace.
              next(ws_id workspace \<mapsto>
                \<lparr>ws_id = ws_id workspace, ws_name = ws_name workspace, ws_documents = None\<rparr>))
           state payload"
| "vanilla_workspacesReducer state (DOCUMENT_ADDED payload) = state"
| "vanilla_workspacesReducer state (DOCUMENT_PAGE_ADDED documentId page) = state"
| "vanilla_workspacesReducer state (DOCUMENT_REMOVED documentId) = state"
| "vanilla_workspacesReducer state (DOCUMENT_ADDED_TO_WORKSPACE documentId workspaceId) = state"

record RootState =
  documents :: DocumentsState
  workspaces :: WorkspacesState

text \<open>\<^verbatim>\<open>combineReducers\<close> calls the slice reducers in key order; an exception thrown by the
  first one propagates.\<close>

definition vanilla_rootReducer :: "RootState \<Rightarrow> AppAction \<Rightarrow> error + RootState" where
  "vanilla_rootReducer state action =
     (case vanilla_documentsReducer (documents state) action of
        Inl err \<Rightarrow> Inl err
      | Inr docs \<Rightarrow>
          Inr \<lparr>documents = docs,
               workspaces = vanilla_workspacesReducer (workspaces state) action\<rparr>)"

definition initialRootState :: RootState where
  "initialRootState = \<lparr>documents = Map.empty, workspaces = Map.empty\<rparr>"

subsection \<open>Thunks (\<^verbatim>\<open>src/app/redux/vanilla/thunks.ts\<close>)\<close>

type_synonym vanilla_run = "(AppAction, RootState) run"

text \<open>A dispatch whose reducer throws leaves the store as it was and throws to its
  caller.\<close>

definition vanilla_dispatch ::
  "AppAction \<Rightarrow> vanilla_run \<Rightarrow> (error + unit) \<times> vanilla_run" where
  "vanilla_dispatch action r =
     (case vanilla_rootReducer (store r) action of
        Inl err \<Rightarrow> (Inl err, r)
      | Inr s' \<Rightarrow> (Inr (), mutate action (\<lambda>_. s') r))"

fun vanilla_dispatch_each ::
  "AppAction list \<Rightarrow> vanilla_run \<Rightarrow> (error + unit) \<times> vanilla_run" where
  "vanilla_dispatch_each [] r = (Inr (), r)"
| "vanilla_dispatch_each (action # actions) r =
     (case vanilla_dispatch action r of
        (Inl err, r') \<Rightarrow> (Inl err, r')
      | (Inr _, r') \<Rightarrow> vanilla_dispatch_each actions r')"

definition vanilla_createDocumentDirectory :: "string \<Rightarrow> error + string" where
  "vanilla_createDocumentDirectory ident = Inr (''C:/Users/trey/'' @ ident)"

definition vanilla_createPageDirectory :: "string \<Rightarrow> string \<Rightarrow> error + string" where
  "vanilla_createPageDirectory path ident = Inr (path @ ''/'' @ ident)"

definition vanilla_writePageContents :: "string \<Rightarrow> string \<Rightarrow> error + unit" where
  "vanilla_writePageContents path content = Inl (Error ''LOL'')"

definition vanilla_fetchWorkspacesData :: "error + Workspace list" where
  "vanilla_fetchWorkspacesData = Inr
     [\<lparr>ws_id = ''workspace-1'', ws_name = ''Personal Projects'',
       ws_documents = Some
         [\<lparr>doc_id = ''doc-workspace-1-1'', doc_path = ''C:/Users/trey/workspace-1/doc-1'',
           doc_title = ''Personal Website'', doc_pages = [],
           doc_workspaceIds = [''workspace-1'']\<rparr>,
          \<lparr>doc_id = ''doc-workspace-1-2'', doc_path = ''C:/Users/trey/workspace-1/doc-2'',
           doc_title = ''Side Project Ideas'', doc_pages = [],
           doc_workspaceIds = [''workspace-1'']\<rparr>]\<rparr>,
      \<lparr>ws_id = ''workspace-2'', ws_name = ''Work Documents'',
       ws_documents = Some
         [\<lparr>doc_id = ''doc-workspace-2-1'', doc_path = ''C:/Users/trey/workspace-2/doc-1'',
           doc_title = ''Q4 Planning'', doc_pages = [],
           doc_workspaceIds = [''workspace-2'']\<rparr>]\<rparr>,
      \<lparr>ws_id = ''workspace-3'', ws_name = ''Research'',
       ws_documents = Some
         [\<lparr>doc_id = ''doc-workspace-3-1'', doc_path = ''C:/Users/trey/workspace-3/doc-1'',
           doc_title = ''State Management Comparison'', doc_pages = [],
           doc_workspaceIds = [''workspace-3'']\<rparr>,
          \<lparr>doc_id = ''doc-workspace-3-2'', doc_path = ''C:/Users/trey/workspace-3/doc-2'',
           doc_title = ''React Patterns'', doc_pages = [],
           doc_workspaceIds = [''workspace-3'']\<rparr>]\<rparr>]"

text \<open>
  \<^verbatim>\<open>createDocument\<close> draws two identifiers from \<^verbatim>\<open>crypto.randomUUID()\<close>; they are
  parameters here. Both optimistic dispatches happen before the first \<^verbatim>\<open>await\<close> and
  outside the \<^verbatim>\<open>try\<close>: were one of them to throw, the thunk's promise would reject there.
  The inner \<^verbatim>\<open>catch\<close> only logs; the outer one logs and removes the document. The result
  is how the promise settles.
\<close>

definition vanilla_createDocument ::
  "string \<Rightarrow> string \<Rightarrow> vanilla_run \<Rightarrow> (error + unit) \<times> vanilla_run" where
  "vanilla_createDocument documentId pageId r0 =
     (let document = \<lparr>doc_id = documentId, doc_path = ''C:/Users/trey/'' @ documentId,
                       doc_title = ''New Document'', doc_pages = [], doc_workspaceIds = []\<rparr>;
          page = \<lparr>page_id = pageId, page_title = ''New Page'', page_content = ''''\<rparr>
      in case vanilla_dispatch (vanilla_addDocument document) r0 of
           (Inl err, r1) \<Rightarrow> (Inl err, r1)
         | (Inr _, r1) \<Rightarrow>
         (case vanilla_dispatch (vanilla_addPage documentId page) r1 of
           (Inl err, r2) \<Rightarrow> (Inl err, r2)
         | (Inr _, r2) \<Rightarrow>
         (case await ''createDocumentDirectory'' (vanilla_createDocumentDirectory documentId) r2 of
           (Inl err, r3) \<Rightarrow>
             vanilla_dispatch (vanilla_removeDocument documentId)
               (console ''Failed to create document directory'' r3)
         | (Inr path, r3) \<Rightarrow>
             (case await ''createPageDirectory'' (vanilla_createPageDirectory path pageId) r3 of
                (Inl err, r4) \<Rightarrow> (Inr (), console ''Failed to create page'' r4)
              | (Inr pagePath, r4) \<Rightarrow>
                  (case await ''writePageContents'' (vanilla_writePageContents pagePath '''') r4 of
                     (Inl err, r5) \<Rightarrow> (Inr (), console ''Failed to create page'' r5)
                   | (Inr done, r5) \<Rightarrow> (Inr (), r5))))))"

definition embedded_documents :: "Workspace \<Rightarrow> Document list" where
  "embedded_documents workspace =
     (case ws_documents workspace of None \<Rightarrow> [] | Some ds \<Rightarrow> ds)"

text \<open>The whole body of \<^verbatim>\<open>fetchWorkspaces\<close> is inside one \<^verbatim>\<open>try\<close>, whose \<^verbatim>\<open>catch\<close> logs:
  the thunk's promise always resolves.\<close>

definition vanilla_fetchWorkspaces :: "vanilla_run \<Rightarrow> vanilla_run" where
  "vanilla_fetchWorkspaces r0 =
     (case (case await ''fetchWorkspacesData'' vanilla_fetchWorkspacesData r0 of
              (Inl err, r1) \<Rightarrow> (Inl err, r1)
            | (Inr fetched, r1) \<Rightarrow>
                (case vanilla_dispatch_each
                        (concat (map (\<lambda>workspace.
                                        map vanilla_addDocument (embedded_documents workspace))
                                     fetched)) r1 of
                   (Inl err, r2) \<Rightarrow> (Inl err, r2)
                 | (Inr _, r2) \<Rightarrow>
                     vanilla_dispatch
                       (vanilla_setWorkspaces
                          (map (\<lambda>workspace. workspace\<lparr>ws_documents := None\<rparr>) fetched))
                       r2)) of
        (Inl err, r3) \<Rightarrow> console ''Failed to fetch workspaces'' r3
      | (Inr _, r3) \<Rightarrow> r3)"

section \<open>Effect-Atom: a repository service over two subscription refs\<close>

text \<open>
  \<^verbatim>\<open>src/app/effect-atom/document-repository.service.ts\<close>. The service holds
  \<^verbatim>\<open>documentsRef\<close> and \<^verbatim>\<open>workspacesRef\<close>; the two fields of the state stand for the
  two refs. A failing
  effect is \<open>Inl\<close>; \<^verbatim>\<open>Effect.log\<close> lines are kept in the trace. The functions handed to
  \<^verbatim>\<open>SubscriptionRef.update\<close> are anonymous in the source and are named here after the
  effect that applies them.
\<close>

type_synonym atom_run = "(string, RootState) run"

definition show_error :: "error \<Rightarrow> string" where
  "show_error e = (case e of Error m \<Rightarrow> ''Error: '' @ m | TypeError m \<Rightarrow> ''TypeError: '' @ m)"

definition atom_createDocumentDirectory :: "string \<Rightarrow> error + string" where
  "atom_createDocumentDirectory ident = Inr (''C:/Users/trey/'' @ ident)"

definition atom_createPageDirectory :: "string \<Rightarrow> string \<Rightarrow> error + string" where
  "atom_createPageDirectory path ident = Inr (path @ ''/'' @ ident)"

definition atom_writePageContents :: "string \<Rightarrow> string \<Rightarrow> error + unit" where
  "atom_writePageContents path content = Inl (Error ''LOL'')"

definition atom_createPage_update :: "string \<Rightarrow> Page \<Rightarrow> DocumentsState \<Rightarrow> DocumentsState" where
  "atom_createPage_update documentId page docs =
     (case docs documentId of
        None \<Rightarrow> docs
      | Some document \<Rightarrow>
          docs(documentId \<mapsto> document\<lparr>doc_pages := doc_pages document @ [page]\<rparr>))"

definition atom_createPage ::
  "string \<Rightarrow> string \<Rightarrow> string \<Rightarrow> atom_run \<Rightarrow> (error + unit) \<times> atom_run" where
  "atom_createPage documentId path pageId r0 =
     (let r1 = console (''Creating page '' @ pageId @ '' for document '' @ documentId) r0;
          page = \<lparr>page_id = pageId, page_title = ''New Page'', page_content = ''''\<rparr>;
          r2 = mutate ''createPage''
                 (\<lambda>state. state\<lparr>documents :=
                    atom_createPage_update documentId page (documents state)\<rparr>) r1
      in case await ''createPageDirectory'' (atom_createPageDirectory path pageId) r2 of
           (Inl err, r3) \<Rightarrow> (Inl err, r3)
         | (Inr pagePath, r3) \<Rightarrow>
             (let r4 = console (''Writing new page to '' @ pagePath) r3
              in case await ''writePageContents'' (atom_writePageContents pagePath '''') r4 of
                   (Inl err, r5) \<Rightarrow> (Inl err, r5)
                 | (Inr done, r5) \<Rightarrow>
                     (Inr (),
                      console (''Created page '' @ pageId @ '' for document '' @ documentId) r5)))"

text \<open>\<^verbatim>\<open>Effect.catchAll\<close> turns a failure of \<^verbatim>\<open>createPage\<close> into a logged line, and
  the workflow goes on to its last log line and returns the document it built.\<close>

definition atom_createDocument ::
  "string \<Rightarrow> string \<Rightarrow> atom_run \<Rightarrow> (error + Document) \<times> atom_run" where
  "atom_createDocument documentId pageId r0 =
     (let r1 = console ''Creating document'' r0;
          document = \<lparr>doc_id = documentId, doc_path = ''C:/Users/trey/'' @ documentId,
                       doc_title = ''New Document'', doc_pages = [], doc_workspaceIds = []\<rparr>;
          r2 = mutate ''createDocument''
                 (\<lambda>state. state\<lparr>documents := (documents state)(documentId \<mapsto> document)\<rparr>) r1
      in case await ''createDocumentDirectory'' (atom_createDocumentDirectory documentId) r2 of
           (Inl err, r3) \<Rightarrow> (Inl err, r3)
         | (Inr documentPath, r3) \<Rightarrow>
             (let r5 = (case atom_createPage documentId documentPath pageId r3 of
                          (Inl err, r4) \<Rightarrow>
                            console (''Failed to create page for document '' @ documentId
                                     @ '': '' @ show_error err) r4
                        | (Inr done, r4) \<Rightarrow> r4)
              in (Inr document, console (''Created document '' @ documentId) r5)))"

definition atom_addDocumentToWorkspace_update ::
  "string \<Rightarrow> string \<Rightarrow> DocumentsState \<Rightarrow> DocumentsState" where
  "atom_addDocumentToWorkspace_update documentId workspaceId docs =
     (case docs documentId of
        None \<Rightarrow> docs
      | Some document \<Rightarrow>
          if workspaceId \<in> set (doc_workspaceIds document) then docs
          else docs(documentId \<mapsto>
                 document\<lparr>doc_workspaceIds := doc_workspaceIds document @ [workspaceId]\<rparr>))"

definition atom_addDocumentToWorkspace ::
  "string \<Rightarrow> string \<Rightarrow> atom_run \<Rightarrow> (error + unit) \<times> atom_run" where
  "atom_addDocumentToWorkspace documentId workspaceId r0 =
     (let r1 = console (''Adding document '' @ documentId @ '' to workspace '' @ workspaceId) r0;
          r2 = mutate ''addDocumentToWorkspace''
                 (\<lambda>state. state\<lparr>documents :=
                    atom_addDocumentToWorkspace_update documentId workspaceId (documents state)\<rparr>)
                 r1
      in (Inr (),
          console (''Added document '' @ documentId @ '' to workspace '' @ workspaceId) r2))"

definition atom_workspaces :: "Workspace list" where
  "atom_workspaces =
     [\<lparr>ws_id = ''workspace-1'', ws_name = ''Personal Projects'',
       ws_documents = Some
         [\<lparr>doc_id = ''doc-workspace-1-1'', doc_path = ''C:/Users/trey/workspace-1/doc-1'',
           doc_title = ''Personal Website'', doc_pages = [],
           doc_workspaceIds = [''workspace-1'']\<rparr>,
          \<lparr>doc_id = ''doc-workspace-1-2'', doc_path = ''C:/Users/trey/workspace-1/doc-2'',
           doc_title = ''Side Project Ideas'', doc_pages = [],
           doc_workspaceIds = [''workspace-1'']\<rparr>]\<rparr>,
      \<lparr>ws_id = ''workspace-2'', ws_name = ''Work Documents'',
       ws_documents = Some
         [\<lparr>doc_id = ''doc-workspace-2-1'', doc_path = ''C:/Users/trey/workspace-2/doc-1'',
           doc_title = ''Q4 Planning'', doc_pages = [],
           doc_workspaceIds = [''workspace-2'']\<rparr>]\<rparr>,
      \<lparr>ws_id = ''workspace-3'', ws_name = ''Research'',
       ws_documents = Some
         [\<lparr>doc_id = ''doc-workspace-3-1'', doc_path = ''C:/Users/trey/workspace-3/doc-1'',
           doc_title = ''State Management Comparison'', doc_pages = [],
           doc_workspaceIds = [''workspace-3'']\<rparr>,
          \<lparr>doc_id = ''doc-workspace-3-2'', doc_path = ''C:/Users/trey/workspace-3/doc-2'',
           doc_title = ''React Patterns'', doc_pages = [],
           doc_workspaceIds = [''workspace-3'']\<rparr>]\<rparr>]"

definition atom_fetchWorkspaces_update :: "Workspace list \<Rightarrow> DocumentsState \<Rightarrow> DocumentsState" where
  "atom_fetchWorkspaces_update fetched docs =
     foldl (\<lambda>next workspace.
              foldl (\<lambda>next document. next(doc_id document \<mapsto> document))
                    next (embedded_documents workspace))
           docs fetched"

definition atom_workspacesRecord :: "Workspace list \<Rightarrow> WorkspacesState" where
  "atom_workspacesRecord fetched =
     foldl (\<lambda>record workspace.
              record(ws_id workspace \<mapsto>
                \<lparr>ws_id = ws_id workspace, ws_name = ws_name workspace, ws_documents = None\<rparr>))
           Map.empty fetched"

definition atom_fetchWorkspaces :: "atom_run \<Rightarrow> (error + WorkspacesState) \<times> atom_run" where
  "atom_fetchWorkspaces r0 =
     (let r1 = console ''Fetching workspaces from DocumentRepositoryService'' r0;
          r2 = snd (await ''sleep'' () r1);
          fetched = atom_workspaces;
          r3 = mutate ''fetchWorkspaces.documents''
                 (\<lambda>state. state\<lparr>documents :=
                    atom_fetchWorkspaces_update fetched (documents state)\<rparr>) r2;
          workspacesRecord = atom_workspacesRecord fetched;
          r4 = mutate ''fetchWorkspaces.workspaces''
                 (\<lambda>state. state\<lparr>workspaces := workspacesRecord\<rparr>) r3
      in (Inr workspacesRecord, console ''Fetched workspaces'' r4))"

section \<open>Redux Toolkit actions\<close>

text \<open>
  The Redux Toolkit variants build their actions with \<^verbatim>\<open>createSlice\<close> and
  \<^verbatim>\<open>createAsyncThunk\<close>. An action is identified by its type string, which
  \<^verbatim>\<open>createSlice\<close> forms from the slice name and the key of the case reducer. The
  documents slices of the thunk variant and of the saga variant are both named
  \<^verbatim>\<open>documents\<close>, so an action of one is an action of the other; a slice reducer returns
  the state it was given for every action type it has no case reducer for. Each
  constructor below is the action object of one type, with the payload its action creator
  is called with. The three lifecycle actions of an async thunk carry its type prefix.
\<close>

datatype payload =
    P_string string
  | P_unit
  | P_created string Page
  | P_document Document
  | P_workspaces "Workspace list"

datatype rtk_action =
    CreateDocumentRequest
  | AddDocument Document
  | AddPage string Page
  | RemoveDocument string
  | AddDocumentToWorkspace string string
  | FetchWorkspacesRequest
  | SetWorkspaces "Workspace list"
  | Pending string
  | Fulfilled string payload
  | Rejected string error

fun action_type :: "rtk_action \<Rightarrow> string" where
  "action_type CreateDocumentRequest = ''documents/createDocumentRequest''"
| "action_type (AddDocument document) = ''documents/addDocument''"
| "action_type (AddPage documentId page) = ''documents/addPage''"
| "action_type (RemoveDocument documentId) = ''documents/removeDocument''"
| "action_type (AddDocumentToWorkspace documentId workspaceId) =
     ''documents/addDocumentToWorkspace''"
| "action_type FetchWorkspacesRequest = ''workspaces/fetchWorkspacesRequest''"
| "action_type (SetWorkspaces payload) = ''workspaces/setWorkspaces''"
| "action_type (Pending typePrefix) = typePrefix @ ''/pending''"
| "action_type (Fulfilled typePrefix p) = typePrefix @ ''/fulfilled''"
| "action_type (Rejected typePrefix e) = typePrefix @ ''/rejected''"

type_synonym rtk_run = "(rtk_action, RootState) run"

text \<open>Dispatching runs the root reducer; a reducer that throws leaves the store as it
  was and the exception reaches the caller of \<^verbatim>\<open>dispatch\<close>.\<close>

definition rtk_dispatch ::
  "(RootState \<Rightarrow> rtk_action \<Rightarrow> error + RootState) \<Rightarrow> rtk_action \<Rightarrow> rtk_run
     \<Rightarrow> (error + unit) \<times> rtk_run" where
  "rtk_dispatch reducer action r =
     (case reducer (store r) action of
        Inl err \<Rightarrow> (Inl err, r)
      | Inr state \<Rightarrow> (Inr (), \<lparr>store = state, trace = trace r @ [Dispatched action state]\<rparr>))"

section \<open>Redux Toolkit thunks\<close>

subsection \<open>The slices\<close>

text \<open>
  The documents slice is in \<^verbatim>\<open>src/unnamed/part_015\<close>, the workspaces slice and its
  fetch thunk in the last module of \<^verbatim>\<open>src/app/redux/vanilla/store.ts\<close>, and the store
  that combines the two in \<^verbatim>\<open>src/unnamed/part_013\<close>.
  The case reducers mutate an Immer draft. \<^verbatim>\<open>addPage\<close> reads
  \<^verbatim>\<open>state[documentId].pages\<close> without a guard, which throws a \<^verbatim>\<open>TypeError\<close> when the
  document is missing; \<^verbatim>\<open>addDocumentToWorkspace\<close> guards both the lookup and the
  membership. The slice has no extra reducers, so lifecycle actions leave it unchanged.
\<close>

fun thunks_documentsReducer :: "DocumentsState \<Rightarrow> rtk_action \<Rightarrow> error + DocumentsState" where
  "thunks_documentsReducer state (AddDocument payload) =
     Inr (state(doc_id payload \<mapsto> payload))"
| "thunks_documentsReducer state (AddPage documentId page) =
     (case state documentId of
        None \<Rightarrow> Inl (TypeError ''Cannot read properties of undefined (reading pages)'')
      | Some document \<Rightarrow>
          Inr (state(documentId \<mapsto> document\<lparr>doc_pages := doc_pages document @ [page]\<rparr>)))"
| "thunks_documentsReducer state (AddDocumentToWorkspace documentId workspaceId) =
     (case state documentId of
        None \<Rightarrow> Inr state
      | Some document \<Rightarrow>
          if workspaceId \<notin> set (doc_workspaceIds document)
          then Inr (state(documentId \<mapsto>
                 document\<lparr>doc_workspaceIds := doc_workspaceIds document @ [workspaceId]\<rparr>))
          else Inr state)"
| "thunks_documentsReducer state CreateDocumentRequest = Inr state"
| "thunks_documentsReducer state (RemoveDocument documentId) = Inr state"
| "thunks_documentsReducer state FetchWorkspacesRequest = Inr state"
| "thunks_documentsReducer state (SetWorkspaces payload) = Inr state"
| "thunks_documentsReducer state (Pending typePrefix) = Inr state"
| "thunks_documentsReducer state (Fulfilled typePrefix p) = Inr state"
| "thunks_documentsReducer state (Rejected typePrefix e) = Inr state"

definition store_workspaces :: "WorkspacesState \<Rightarrow> Workspace list \<Rightarrow> WorkspacesState" where
  "store_workspaces state payload =
     foldl (\<lambda>next workspace.
              next(ws_id workspace \<mapsto>
                \<lparr>ws_id = ws_id workspace, ws_name = ws_name workspace, ws_documents = None\<rparr>))
           state payload"

fun thunks_workspacesReducer :: "WorkspacesState \<Rightarrow> rtk_action \<Rightarrow> WorkspacesState" where
  "thunks_workspacesReducer state (Fulfilled typePrefix (P_workspaces payload)) =
     (if typePrefix = ''workspaces/fetchWorkspaces'' then store_workspaces state payload
      else state)"
| "thunks_workspacesReducer state action = state"

definition thunks_rootReducer :: "RootState \<Rightarrow> rtk_action \<Rightarrow> error + RootState" where
  "thunks_rootReducer state action =
     (case thunks_documentsReducer (documents state) action of
        Inl err \<Rightarrow> Inl err
      | Inr docs \<Rightarrow>
          Inr \<lparr>documents = docs,
               workspaces = thunks_workspacesReducer (workspaces state) action\<rparr>)"

definition thunks_dispatch :: "rtk_action \<Rightarrow> rtk_run \<Rightarrow> (error + unit) \<times> rtk_run" where
  "thunks_dispatch = rtk_dispatch thunks_rootReducer"

subsection \<open>Async thunks\<close>

text \<open>
  Dispatching a thunk made by \<^verbatim>\<open>createAsyncThunk\<close> dispatches its \<^verbatim>\<open>pending\<close> action,
  runs the payload creator, and dispatches \<^verbatim>\<open>fulfilled\<close> with the returned payload or
  \<^verbatim>\<open>rejected\<close> with the thrown error. The promise it returns never rejects: it resolves
  to the action dispatched last. Here \<open>Inr p\<close> is a fulfilled action with payload \<open>p\<close>
  and \<open>Inl e\<close> a rejected one, so \<^verbatim>\<open>thunk.rejected.match(result)\<close> is the \<open>Inl\<close> case.
\<close>

definition createAsyncThunk ::
  "string \<Rightarrow> ('p \<Rightarrow> payload) \<Rightarrow> (rtk_run \<Rightarrow> (error + 'p) \<times> rtk_run) \<Rightarrow> rtk_run
     \<Rightarrow> (error + 'p) \<times> rtk_run" where
  "createAsyncThunk typePrefix wrap payloadCreator r0 =
     (let r1 = snd (thunks_dispatch (Pending typePrefix) r0)
      in case payloadCreator r1 of
           (Inr p, r2) \<Rightarrow> (Inr p, snd (thunks_dispatch (Fulfilled typePrefix (wrap p)) r2))
         | (Inl err, r2) \<Rightarrow> (Inl err, snd (thunks_dispatch (Rejected typePrefix err) r2)))"

definition thunks_createDocumentDirectory :: "string \<Rightarrow> rtk_run \<Rightarrow> (error + string) \<times> rtk_run" where
  "thunks_createDocumentDirectory ident =
     createAsyncThunk ''documents/createDirectory'' P_string
       (await ''createDocumentDirectory'' (Inr (''C:/Users/trey/'' @ ident)))"

definition thunks_createPageDirectory ::
  "string \<Rightarrow> string \<Rightarrow> rtk_run \<Rightarrow> (error + string) \<times> rtk_run" where
  "thunks_createPageDirectory path ident =
     createAsyncThunk ''documents/createPageDirectory'' P_string
       (await ''createPageDirectory'' (Inr (path @ ''/'' @ ident)))"

definition thunks_writePageContents ::
  "string \<Rightarrow> string \<Rightarrow> rtk_run \<Rightarrow> (error + unit) \<times> rtk_run" where
  "thunks_writePageContents path content =
     createAsyncThunk ''documents/writePageContents'' (\<lambda>u. P_unit)
       (await ''writePageContents'' (Inl (Error ''LOL'')))"

text \<open>
  \<^verbatim>\<open>createPage\<close> draws two identifiers: \<open>ident\<close> names the page directory and
  \<open>pageId\<close> is the id of the page put in the state. A rejected step is rethrown as a new
  error with a message of its own.
\<close>

definition thunks_createPage ::
  "string \<Rightarrow> string \<Rightarrow> string \<Rightarrow> string \<Rightarrow> rtk_run \<Rightarrow> (error + string \<times> Page) \<times> rtk_run" where
  "thunks_createPage documentId path ident pageId =
     createAsyncThunk ''documents/createPage'' (\<lambda>(d, p). P_created d p)
       (\<lambda>r0.
          let page = \<lparr>page_id = pageId, page_title = ''New Page'', page_content = ''''\<rparr>
          in case thunks_dispatch (AddPage documentId page) r0 of
               (Inl err, r1) \<Rightarrow> (Inl err, r1)
             | (Inr done, r1) \<Rightarrow>
                 (case thunks_createPageDirectory path ident r1 of
                    (Inl err, r2) \<Rightarrow> (Inl (Error ''Failed to create page directory''), r2)
                  | (Inr pagePath, r2) \<Rightarrow>
                      (case thunks_writePageContents pagePath '''' r2 of
                         (Inl err, r3) \<Rightarrow> (Inl (Error ''Failed to create page contents''), r3)
                       | (Inr done, r3) \<Rightarrow> (Inr (documentId, page), r3))))"

definition thunks_createDocument ::
  "string \<Rightarrow> string \<Rightarrow> string \<Rightarrow> rtk_run \<Rightarrow> (error + Document) \<times> rtk_run" where
  "thunks_createDocument ident pageDirId pageId =
     createAsyncThunk ''documents/createDocument'' P_document
       (\<lambda>r0.
          let r1 = console ''Creating document'' r0;
              document = \<lparr>doc_id = ident, doc_path = ''C:/Users/trey/'' @ ident,
                           doc_title = ''New Document'', doc_pages = [], doc_workspaceIds = []\<rparr>
          in case thunks_dispatch (AddDocument document) r1 of
               (Inl err, r2) \<Rightarrow> (Inl err, r2)
             | (Inr done, r2) \<Rightarrow>
                 (case thunks_createDocumentDirectory ident r2 of
                    (Inl err, r3) \<Rightarrow> (Inl (Error ''Failed to create document directory''), r3)
                  | (Inr path, r3) \<Rightarrow>
                      (case thunks_createPage ident path pageDirId pageId r3 of
                         (Inl err, r4) \<Rightarrow> (Inl (Error ''Failed to create page''), r4)
                       | (Inr created, r4) \<Rightarrow>
                           (Inr document, console ''Created document'' r4))))"

definition thunks_workspaces :: "Workspace list" where
  "thunks_workspaces =
     [\<lparr>ws_id = ''workspace-1'', ws_name = ''Personal Projects'',
       ws_documents = Some
         [\<lparr>doc_id = ''doc-workspace-1-1'', doc_path = ''C:/Users/trey/workspace-1/doc-1'',
           doc_title = ''Personal Website'', doc_pages = [],
           doc_workspaceIds = [''workspace-1'']\<rparr>,
          \<lparr>doc_id = ''doc-workspace-1-2'', doc_path = ''C:/Users/trey/workspace-1/doc-2'',
           doc_title = ''Side Project Ideas'', doc_pages = [],
           doc_workspaceIds = [''workspace-1'']\<rparr>]\<rparr>,
      \<lparr>ws_id = ''workspace-2'', ws_name = ''Work Documents'',
       ws_documents = Some
         [\<lparr>doc_id = ''doc-workspace-2-1'', doc_path = ''C:/Users/trey/workspace-2/doc-1'',
           doc_title = ''Q4 Planning'', doc_pages = [],
           doc_workspaceIds = [''workspace-2'']\<rparr>]\<rparr>,
      \<lparr>ws_id = ''workspace-3'', ws_name = ''Research'',
       ws_documents = Some
         [\<lparr>doc_id = ''doc-workspace-3-1'', doc_path = ''C:/Users/trey/workspace-3/doc-1'',
           doc_title = ''State Management Comparison'', doc_pages = [],
           doc_workspaceIds = [''workspace-3'']\<rparr>,
          \<lparr>doc_id = ''doc-workspace-3-2'', doc_path = ''C:/Users/trey/workspace-3/doc-2'',
           doc_title = ''React Patterns'', doc_pages = [],
           doc_workspaceIds = [''workspace-3'']\<rparr>]\<rparr>]"

text \<open>Dispatching every embedded document in turn; a dispatch that throws ends the
  loop, as the exception would.\<close>

fun dispatch_each ::
  "(rtk_action \<Rightarrow> rtk_run \<Rightarrow> (error + unit) \<times> rtk_run) \<Rightarrow> rtk_action list \<Rightarrow> rtk_run
     \<Rightarrow> (error + unit) \<times> rtk_run" where
  "dispatch_each dispatch [] r = (Inr (), r)"
| "dispatch_each dispatch (a # as) r =
     (case dispatch a r of
        (Inl err, r1) \<Rightarrow> (Inl err, r1)
      | (Inr done, r1) \<Rightarrow> dispatch_each dispatch as r1)"

definition thunks_fetchWorkspaces :: "rtk_run \<Rightarrow> (error + Workspace list) \<times> rtk_run" where
  "thunks_fetchWorkspaces =
     createAsyncThunk ''workspaces/fetchWorkspaces'' P_workspaces
       (\<lambda>r0.
          let r1 = console ''Fetching workspaces from database'' r0;
              r2 = snd (await ''setTimeout'' () r1);
              fetched = thunks_workspaces
          in case dispatch_each thunks_dispatch
                    (concat (map (\<lambda>workspace. map AddDocument (embedded_documents workspace))
                                 fetched)) r2 of
               (Inl err, r3) \<Rightarrow> (Inl err, r3)
             | (Inr done, r3) \<Rightarrow> (Inr fetched, r3))"

section \<open>Redux-Saga\<close>

subsection \<open>The slices\<close>

text \<open>
  \<^verbatim>\<open>src/app/redux/sagas/documents.slice.ts\<close> (with the same reducers, commented, in
  \<^verbatim>\<open>src/unnamed/part_009\<close>) and \<^verbatim>\<open>src/app/redux/sagas/workspaces.slice.ts\<close>.
  The documents slice has four case reducers: \<^verbatim>\<open>createDocumentRequest\<close> (which leaves
  the state alone and only wakes the saga), \<^verbatim>\<open>addDocument\<close>, \<^verbatim>\<open>addPage\<close> and
  \<^verbatim>\<open>removeDocument\<close>. It has none for \<^verbatim>\<open>documents/addDocumentToWorkspace\<close>, the action
  the thunk slice handles, so that action falls through to the default and the state is
  returned as it came. \<^verbatim>\<open>addPage\<close> is unguarded, as in the thunk slice.
\<close>

fun sagas_documentsReducer :: "DocumentsState \<Rightarrow> rtk_action \<Rightarrow> error + DocumentsState" where
  "sagas_documentsReducer state CreateDocumentRequest = Inr state"
| "sagas_documentsReducer state (AddDocument payload) =
     Inr (state(doc_id payload \<mapsto> payload))"
| "sagas_documentsReducer state (AddPage documentId page) =
     (case state documentId of
        None \<Rightarrow> Inl (TypeError ''Cannot read properties of undefined (reading pages)'')
      | Some document \<Rightarrow>
          Inr (state(documentId \<mapsto> document\<lparr>doc_pages := doc_pages document @ [page]\<rparr>)))"
| "sagas_documentsReducer state (RemoveDocument payload) = Inr (state(payload := None))"
| "sagas_documentsReducer state (AddDocumentToWorkspace documentId workspaceId) = Inr state"
| "sagas_documentsReducer state FetchWorkspacesRequest = Inr state"
| "sagas_documentsReducer state (SetWorkspaces payload) = Inr state"
| "sagas_documentsReducer state (Pending typePrefix) = Inr state"
| "sagas_documentsReducer state (Fulfilled typePrefix p) = Inr state"
| "sagas_documentsReducer state (Rejected typePrefix e) = Inr state"

fun sagas_workspacesReducer :: "WorkspacesState \<Rightarrow> rtk_action \<Rightarrow> WorkspacesState" where
  "sagas_workspacesReducer state FetchWorkspacesRequest = state"
| "sagas_workspacesReducer state (SetWorkspaces payload) = store_workspaces state payload"
| "sagas_workspacesReducer state action = state"

subsection \<open>The store\<close>

text \<open>The saga store (\<^verbatim>\<open>src/unnamed/part_009\<close>) registers the documents reducer only;
  nothing it is sent changes the workspaces.\<close>

definition sagas_rootReducer :: "RootState \<Rightarrow> rtk_action \<Rightarrow> error + RootState" where
  "sagas_rootReducer state action =
     (case sagas_documentsReducer (documents state) action of
        Inl err \<Rightarrow> Inl err
      | Inr docs \<Rightarrow> Inr (state\<lparr>documents := docs\<rparr>))"

definition put :: "rtk_action \<Rightarrow> rtk_run \<Rightarrow> (error + unit) \<times> rtk_run" where
  "put = rtk_dispatch sagas_rootReducer"

subsection \<open>The sagas\<close>

text \<open>
  The document sagas are the first module of \<^verbatim>\<open>src/app/redux/sagas/documents.sagas.ts\<close>,
  the workspace sagas are in \<^verbatim>\<open>src/unnamed/part_010\<close>. A \<^verbatim>\<open>put\<close> dispatches to the
  store; a \<^verbatim>\<open>call\<close> of a simulated operation is a recorded call.
\<close>

definition sagas_createDocumentDirectory :: "string \<Rightarrow> error + string" where
  "sagas_createDocumentDirectory ident = Inr (''C:/Users/trey/'' @ ident)"

definition sagas_createPageDirectory :: "string \<Rightarrow> string \<Rightarrow> error + string" where
  "sagas_createPageDirectory path ident = Inr (path @ ''/'' @ ident)"

definition sagas_writePageContents :: "string \<Rightarrow> string \<Rightarrow> error + unit" where
  "sagas_writePageContents path content = Inl (Error ''LOL'')"

text \<open>\<^verbatim>\<open>createPageSaga\<close> logs whatever its body throws and throws it again.\<close>

definition createPageSaga ::
  "string \<Rightarrow> string \<Rightarrow> string \<Rightarrow> rtk_run \<Rightarrow> (error + unit) \<times> rtk_run" where
  "createPageSaga documentId path pageId r0 =
     (let page = \<lparr>page_id = pageId, page_title = ''New Page'', page_content = ''''\<rparr>;
          body =
            (case put (AddPage documentId page) r0 of
               (Inl err, r1) \<Rightarrow> (Inl err, r1)
             | (Inr done, r1) \<Rightarrow>
                 (case await ''createPageDirectory'' (sagas_createPageDirectory path pageId) r1 of
                    (Inl err, r2) \<Rightarrow> (Inl err, r2)
                  | (Inr pagePath, r2) \<Rightarrow>
                      (case await ''writePageContents''
                              (sagas_writePageContents pagePath '''') r2 of
                         (Inl err, r3) \<Rightarrow> (Inl err, r3)
                       | (Inr done, r3) \<Rightarrow> (Inr (), console ''Created page'' r3))))
      in case body of
           (Inl err, r4) \<Rightarrow> (Inl err, console ''Failed to create page:'' r4)
         | (Inr done, r4) \<Rightarrow> (Inr (), r4))"

text \<open>\<^verbatim>\<open>createDocumentSaga\<close> catches everything and only logs.\<close>

definition createDocumentSaga :: "string \<Rightarrow> string \<Rightarrow> rtk_run \<Rightarrow> rtk_run" where
  "createDocumentSaga ident pageId r0 =
     (let r1 = console ''Creating document'' r0;
          document = \<lparr>doc_id = ident, doc_path = ''C:/Users/trey/'' @ ident,
                       doc_title = ''New Document'', doc_pages = [], doc_workspaceIds = []\<rparr>;
          body =
            (case put (AddDocument document) r1 of
               (Inl err, r2) \<Rightarrow> (Inl err, r2)
             | (Inr done, r2) \<Rightarrow>
                 (case await ''createDocumentDirectory'' (sagas_createDocumentDirectory ident) r2 of
                    (Inl err, r3) \<Rightarrow> (Inl err, r3)
                  | (Inr path, r3) \<Rightarrow>
                      (case createPageSaga ident path pageId r3 of
                         (Inl err, r4) \<Rightarrow> (Inl err, r4)
                       | (Inr done, r4) \<Rightarrow> (Inr (), console ''Created document'' r4))))
      in case body of
           (Inl err, r5) \<Rightarrow> console ''Failed to create document:'' r5
         | (Inr done, r5) \<Rightarrow> r5)"

definition fetchWorkspacesFromDB :: "error + Workspace list" where
  "fetchWorkspacesFromDB = Inr
     [\<lparr>ws_id = ''workspace-1'', ws_name = ''Personal Projects'',
       ws_documents = Some
         [\<lparr>doc_id = ''doc-workspace-1-1'', doc_path = ''C:/Users/trey/workspace-1/doc-1'',
           doc_title = ''Personal Website'', doc_pages = [],
           doc_workspaceIds = [''workspace-1'']\<rparr>,
          \<lparr>doc_id = ''doc-workspace-1-2'', doc_path = ''C:/Users/trey/workspace-1/doc-2'',
           doc_title = ''Side Project Ideas'', doc_pages = [],
           doc_workspaceIds = [''workspace-1'']\<rparr>]\<rparr>,
      \<lparr>ws_id = ''workspace-2'', ws_name = ''Work Documents'',
       ws_documents = Some
         [\<lparr>doc_id = ''doc-workspace-2-1'', doc_path = ''C:/Users/trey/workspace-2/doc-1'',
           doc_title = ''Q4 Planning'', doc_pages = [],
           doc_workspaceIds = [''workspace-2'']\<rparr>]\<rparr>,
      \<lparr>ws_id = ''workspace-3'', ws_name = ''Research'',
       ws_documents = Some
         [\<lparr>doc_id = ''doc-workspace-3-1'', doc_path = ''C:/Users/trey/workspace-3/doc-1'',
           doc_title = ''State Management Comparison'', doc_pages = [],
           doc_workspaceIds = [''workspace-3'']\<rparr>,
          \<lparr>doc_id = ''doc-workspace-3-2'', doc_path = ''C:/Users/trey/workspace-3/doc-2'',
           doc_title = ''React Patterns'', doc_pages = [],
           doc_workspaceIds = [''workspace-3'']\<rparr>]\<rparr>]"

text \<open>\<^verbatim>\<open>fetchWorkspacesSaga\<close> puts one \<^verbatim>\<open>addDocument\<close> per embedded document and then
  \<^verbatim>\<open>setWorkspaces\<close> with the workspaces as fetched.\<close>

definition fetchWorkspacesSaga :: "rtk_run \<Rightarrow> rtk_run" where
  "fetchWorkspacesSaga r0 =
     (let r1 = console ''Fetching workspaces from database'' r0;
          body =
            (case await ''fetchWorkspacesFromDB'' fetchWorkspacesFromDB r1 of
               (Inl err, r2) \<Rightarrow> (Inl err, r2)
             | (Inr fetched, r2) \<Rightarrow>
                 (case dispatch_each put
                         (concat (map (\<lambda>workspace. map AddDocument (embedded_documents workspace))
                                      fetched)) r2 of
                    (Inl err, r3) \<Rightarrow> (Inl err, r3)
                  | (Inr done, r3) \<Rightarrow>
                      (case put (SetWorkspaces fetched) r3 of
                         (Inl err, r4) \<Rightarrow> (Inl err, r4)
                       | (Inr done, r4) \<Rightarrow> (Inr (), console ''Fetched workspaces'' r4))))
      in case body of
           (Inl err, r5) \<Rightarrow> console ''Failed to fetch workspaces:'' r5
         | (Inr done, r5) \<Rightarrow> r5)"

section \<open>Redux-Observable\<close>

text \<open>
  \<^verbatim>\<open>src/app/redux/observables/store.ts\<close> combines the documents and the workspaces
  slice of the saga variant; the two epics are the last module of
  \<^verbatim>\<open>src/app/redux/sagas/documents.sagas.ts\<close>. Every action an epic emits is dispatched
  to the store.
\<close>

definition observables_rootReducer :: "RootState \<Rightarrow> rtk_action \<Rightarrow> error + RootState" where
  "observables_rootReducer state action =
     (case sagas_documentsReducer (documents state) action of
        Inl err \<Rightarrow> Inl err
      | Inr docs \<Rightarrow>
          Inr \<lparr>documents = docs,
               workspaces = sagas_workspacesReducer (workspaces state) action\<rparr>)"

definition emit :: "rtk_action \<Rightarrow> rtk_run \<Rightarrow> (error + unit) \<times> rtk_run" where
  "emit = rtk_dispatch observables_rootReducer"

definition epics_createDocumentDirectory :: "string \<Rightarrow> error + string" where
  "epics_createDocumentDirectory ident = Inr (''C:/Users/trey/'' @ ident)"

definition epics_createPageDirectory :: "string \<Rightarrow> string \<Rightarrow> error + string" where
  "epics_createPageDirectory path ident = Inr (path @ ''/'' @ ident)"

definition epics_writePageContents :: "error + unit" where
  "epics_writePageContents = Inl (Error ''LOL'')"

text \<open>
  \<^verbatim>\<open>createPageEpic\<close> answers a \<^verbatim>\<open>createDocumentRequest\<close> with the concatenation of
  \<^verbatim>\<open>addDocument\<close>, \<^verbatim>\<open>addPage\<close> and the workflow. The workflow is built from
  \<^verbatim>\<open>from(createDocumentDirectory(documentId))\<close>, so the directory call is made when the
  workflow is built, before the two actions are emitted. The inner \<^verbatim>\<open>catchError\<close> logs
  and completes with nothing; the outer one logs and emits \<^verbatim>\<open>removeDocument\<close>. An action
  whose reducer throws ends the epic with that error.
\<close>

definition createPageEpic :: "string \<Rightarrow> string \<Rightarrow> rtk_run \<Rightarrow> (error + unit) \<times> rtk_run" where
  "createPageEpic documentId pageId r0 =
     (let document = \<lparr>doc_id = documentId, doc_path = ''C:/Users/trey/'' @ documentId,
                       doc_title = ''New Document'', doc_pages = [], doc_workspaceIds = []\<rparr>;
          page = \<lparr>page_id = pageId, page_title = ''New Page'', page_content = ''''\<rparr>;
          (directory, r1) =
             await ''createDocumentDirectory'' (epics_createDocumentDirectory documentId) r0
      in case emit (AddDocument document) r1 of
           (Inl err, r2) \<Rightarrow> (Inl err, r2)
         | (Inr done, r2) \<Rightarrow>
             (case emit (AddPage documentId page) r2 of
                (Inl err, r3) \<Rightarrow> (Inl err, r3)
              | (Inr done, r3) \<Rightarrow>
                  (case directory of
                     Inl err \<Rightarrow>
                       emit (RemoveDocument documentId)
                         (console ''Failed to create document directory'' r3)
                   | Inr path \<Rightarrow>
                       (case await ''createPageDirectory''
                               (epics_createPageDirectory path pageId) r3 of
                          (Inl err, r4) \<Rightarrow>
                            (Inr (), console ''Failed to create page directory'' r4)
                        | (Inr pagePath, r4) \<Rightarrow>
                            (case await ''writePageContents'' epics_writePageContents r4 of
                               (Inl err, r5) \<Rightarrow>
                                 (Inr (), console ''Failed to create page directory'' r5)
                             | (Inr done, r5) \<Rightarrow>
                                 (Inr (), console ''Created page contents'' r5))))))"

definition epics_fetchWorkspaces :: "error + Workspace list" where
  "epics_fetchWorkspaces = Inr
     [\<lparr>ws_id = ''workspace-1'', ws_name = ''Personal Projects'',
       ws_documents = Some
         [\<lparr>doc_id = ''doc-workspace-1-1'', doc_path = ''C:/Users/trey/workspace-1/doc-1'',
           doc_title = ''Personal Website'', doc_pages = [],
           doc_workspaceIds = [''workspace-1'']\<rparr>,
          \<lparr>doc_id = ''doc-workspace-1-2'', doc_path = ''C:/Users/trey/workspace-1/doc-2'',
           doc_title = ''Side Project Ideas'', doc_pages = [],
           doc_workspaceIds = [''workspace-1'']\<rparr>]\<rparr>,
      \<lparr>ws_id = ''workspace-2'', ws_name = ''Work Documents'',
       ws_documents = Some
         [\<lparr>doc_id = ''doc-workspace-2-1'', doc_path = ''C:/Users/trey/workspace-2/doc-1'',
           doc_title = ''Q4 Planning'', doc_pages = [],
           doc_workspaceIds = [''workspace-2'']\<rparr>]\<rparr>,
      \<lparr>ws_id = ''workspace-3'', ws_name = ''Research'',
       ws_documents = Some
         [\<lparr>doc_id = ''doc-workspace-3-1'', doc_path = ''C:/Users/trey/workspace-3/doc-1'',
           doc_title = ''State Management Comparison'', doc_pages = [],
           doc_workspaceIds = [''workspace-3'']\<rparr>,
          \<lparr>doc_id = ''doc-workspace-3-2'', doc_path = ''C:/Users/trey/workspace-3/doc-2'',
           doc_title = ''React Patterns'', doc_pages = [],
           doc_workspaceIds = [''workspace-3'']\<rparr>]\<rparr>]"

definition fetchWorkspacesEpic :: "rtk_run \<Rightarrow> (error + unit) \<times> rtk_run" where
  "fetchWorkspacesEpic r0 =
     (case await ''fetchWorkspaces'' epics_fetchWorkspaces r0 of
        (Inl err, r1) \<Rightarrow> (Inr (), console ''Failed to fetch workspaces'' r1)
      | (Inr fetched, r1) \<Rightarrow>
          (let documentActions =
                 concat (map (\<lambda>workspace. map AddDocument (embedded_documents workspace))
                             fetched)
           in case dispatch_each emit documentActions r1 of
                (Inl err, r2) \<Rightarrow> (Inl err, r2)
              | (Inr done, r2) \<Rightarrow>
                  emit (SetWorkspaces
                          (map (\<lambda>workspace. workspace\<lparr>ws_documents := None\<rparr>) fetched))
                       r2))"

section \<open>Zustand\<close>

text \<open>
  The documents store and the workspaces store (the last two modules of
  \<^verbatim>\<open>src/app/routes.ts\<close>) are two stores; the two fields of the state stand for them. \<^verbatim>\<open>addPage\<close> reads
  \<^verbatim>\<open>state.documents[documentId].pages\<close> without a guard.
\<close>

type_synonym zustand_run = "(string, RootState) run"

definition zustand_createDocumentDirectory :: "string \<Rightarrow> error + string" where
  "zustand_createDocumentDirectory ident = Inr (''C:/Users/trey/'' @ ident)"

definition zustand_createPageDirectory :: "string \<Rightarrow> string \<Rightarrow> error + string" where
  "zustand_createPageDirectory path ident = Inr (path @ ''/'' @ ident)"

definition zustand_writePageContents :: "string \<Rightarrow> string \<Rightarrow> error + unit" where
  "zustand_writePageContents path content = Inl (Error ''LOL'')"

definition zustand_addDocument :: "Document \<Rightarrow> zustand_run \<Rightarrow> zustand_run" where
  "zustand_addDocument document =
     mutate ''addDocument''
       (\<lambda>state. state\<lparr>documents := (documents state)(doc_id document \<mapsto> document)\<rparr>)"

definition zustand_addPage :: "string \<Rightarrow> Page \<Rightarrow> zustand_run \<Rightarrow> (error + unit) \<times> zustand_run" where
  "zustand_addPage documentId page r =
     (case documents (store r) documentId of
        None \<Rightarrow> (Inl (TypeError ''Cannot read properties of undefined (reading pages)''), r)
      | Some existing \<Rightarrow>
          (Inr (),
           mutate ''addPage''
             (\<lambda>state. state\<lparr>documents :=
                (documents state)(documentId \<mapsto>
                   existing\<lparr>doc_pages := doc_pages existing @ [page]\<rparr>)\<rparr>) r))"

definition zustand_createPageAction ::
  "string \<Rightarrow> string \<Rightarrow> string \<Rightarrow> zustand_run \<Rightarrow> (error + unit) \<times> zustand_run" where
  "zustand_createPageAction documentId path pageId r0 =
     (let page = \<lparr>page_id = pageId, page_title = ''New Page'', page_content = ''''\<rparr>;
          body =
            (case zustand_addPage documentId page r0 of
               (Inl err, r1) \<Rightarrow> (Inl err, r1)
             | (Inr done, r1) \<Rightarrow>
                 (case await ''createPageDirectory''
                         (zustand_createPageDirectory path pageId) r1 of
                    (Inl err, r2) \<Rightarrow> (Inl err, r2)
                  | (Inr pagePath, r2) \<Rightarrow>
                      (case await ''writePageContents''
                              (zustand_writePageContents pagePath '''') r2 of
                         (Inl err, r3) \<Rightarrow> (Inl err, r3)
                       | (Inr done, r3) \<Rightarrow> (Inr (), console ''Created page'' r3))))
      in case body of
           (Inl err, r4) \<Rightarrow> (Inl err, console ''Failed to create page:'' r4)
         | (Inr done, r4) \<Rightarrow> (Inr (), r4))"

definition zustand_createDocument :: "string \<Rightarrow> string \<Rightarrow> zustand_run \<Rightarrow> zustand_run" where
  "zustand_createDocument ident pageId r0 =
     (let r1 = console ''Creating document'' r0;
          document = \<lparr>doc_id = ident, doc_path = ''C:/Users/trey/'' @ ident,
                       doc_title = ''New Document'', doc_pages = [], doc_workspaceIds = []\<rparr>;
          r2 = zustand_addDocument document r1;
          body =
            (case await ''createDocumentDirectory'' (zustand_createDocumentDirectory ident) r2 of
               (Inl err, r3) \<Rightarrow> (Inl err, r3)
             | (Inr path, r3) \<Rightarrow>
                 (case zustand_createPageAction ident path pageId r3 of
                    (Inl err, r4) \<Rightarrow> (Inl err, r4)
                  | (Inr done, r4) \<Rightarrow> (Inr (), console ''Created document'' r4)))
      in case body of
           (Inl err, r5) \<Rightarrow> console ''Failed to create document:'' r5
         | (Inr done, r5) \<Rightarrow> r5)"

definition zustand_addDocumentToWorkspace :: "string \<Rightarrow> string \<Rightarrow> zustand_run \<Rightarrow> zustand_run" where
  "zustand_addDocumentToWorkspace documentId workspaceId =
     mutate ''addDocumentToWorkspace''
       (\<lambda>state.
          case documents state documentId of
            None \<Rightarrow> state
          | Some document \<Rightarrow>
              if workspaceId \<notin> set (doc_workspaceIds document)
              then state\<lparr>documents :=
                     (documents state)(documentId \<mapsto>
                        document\<lparr>doc_workspaceIds :=
                                   doc_workspaceIds document @ [workspaceId]\<rparr>)\<rparr>
              else state)"

definition zustand_workspaces :: "Workspace list" where
  "zustand_workspaces =
     [\<lparr>ws_id = ''workspace-1'', ws_name = ''Personal Projects'',
       ws_documents = Some
         [\<lparr>doc_id = ''doc-workspace-1-1'', doc_path = ''C:/Users/trey/workspace-1/doc-1'',
           doc_title = ''Personal Website'', doc_pages = [],
           doc_workspaceIds = [''workspace-1'']\<rparr>,
          \<lparr>doc_id = ''doc-workspace-1-2'', doc_path = ''C:/Users/trey/workspace-1/doc-2'',
           doc_title = ''Side Project Ideas'', doc_pages = [],
           doc_workspaceIds = [''workspace-1'']\<rparr>]\<rparr>,
      \<lparr>ws_id = ''workspace-2'', ws_name = ''Work Documents'',
       ws_documents = Some
         [\<lparr>doc_id = ''doc-workspace-2-1'', doc_path = ''C:/Users/trey/workspace-2/doc-1'',
           doc_title = ''Q4 Planning'', doc_pages = [],
           doc_workspaceIds = [''workspace-2'']\<rparr>]\<rparr>,
      \<lparr>ws_id = ''workspace-3'', ws_name = ''Research'',
       ws_documents = Some
         [\<lparr>doc_id = ''doc-workspace-3-1'', doc_path = ''C:/Users/trey/workspace-3/doc-1'',
           doc_title = ''State Management Comparison'', doc_pages = [],
           doc_workspaceIds = [''workspace-3'']\<rparr>,
          \<lparr>doc_id = ''doc-workspace-3-2'', doc_path = ''C:/Users/trey/workspace-3/doc-2'',
           doc_title = ''React Patterns'', doc_pages = [],
           doc_workspaceIds = [''workspace-3'']\<rparr>]\<rparr>]"

definition zustand_fetchWorkspaces :: "zustand_run \<Rightarrow> zustand_run" where
  "zustand_fetchWorkspaces r0 =
     (let r1 = console ''Fetching workspaces from database'' r0;
          r2 = snd (await ''setTimeout'' () r1);
          fetched = zustand_workspaces;
          r3 = foldl (\<lambda>r workspace.
                        foldl (\<lambda>r document. zustand_addDocument document r)
                              r (embedded_documents workspace))
                     r2 fetched;
          workspacesRecord = store_workspaces Map.empty fetched;
          r4 = mutate ''fetchWorkspaces'' (\<lambda>state. state\<lparr>workspaces := workspacesRecord\<rparr>) r3
      in console ''Fetched workspaces'' r4)"

section \<open>MobX-Keystone\<close>

text \<open>
  The documents model (\<^verbatim>\<open>src/unnamed/part_008\<close>) and the workspaces model
  (\<^verbatim>\<open>src/unnamed/part_007\<close>). A \<^verbatim>\<open>Document\<close> is a mutable model instance: the workflow keeps a reference to the
  instance it created and mutates it through that reference, while the store maps ids to
  instances. The model therefore has a heap of document instances, and the documents
  store maps an id to a reference. Workspace instances are never mutated and are kept
  by value.
\<close>

record keystone_state =
  heap :: "nat \<rightharpoonup> Document"
  next_ref :: nat
  ks_documents :: "string \<rightharpoonup> nat"
  ks_workspaces :: WorkspacesState

type_synonym keystone_run = "(string, keystone_state) run"

definition keystone_initialState :: keystone_state where
  "keystone_initialState =
     \<lparr>heap = Map.empty, next_ref = 0, ks_documents = Map.empty, ks_workspaces = Map.empty\<rparr>"

text \<open>\<^verbatim>\<open>new Document({...})\<close> allocates an instance that no store holds yet.\<close>

definition new_Document :: "Document \<Rightarrow> keystone_run \<Rightarrow> nat \<times> keystone_run" where
  "new_Document props r =
     (let s = store r
      in (next_ref s,
          r\<lparr>store := s\<lparr>heap := (heap s)(next_ref s \<mapsto> props),
                         next_ref := Suc (next_ref s)\<rparr>\<rparr>))"

definition Document_addPage :: "nat \<Rightarrow> Page \<Rightarrow> keystone_run \<Rightarrow> keystone_run" where
  "Document_addPage this page =
     mutate ''Document.addPage''
       (\<lambda>s. case heap s this of
               None \<Rightarrow> s
             | Some d \<Rightarrow> s\<lparr>heap := (heap s)(this \<mapsto> d\<lparr>doc_pages := doc_pages d @ [page]\<rparr>)\<rparr>)"

definition Document_addToWorkspace :: "nat \<Rightarrow> string \<Rightarrow> keystone_run \<Rightarrow> keystone_run" where
  "Document_addToWorkspace this workspaceId =
     mutate ''Document.addToWorkspace''
       (\<lambda>s. case heap s this of
               None \<Rightarrow> s
             | Some d \<Rightarrow>
                 if workspaceId \<notin> set (doc_workspaceIds d)
                 then s\<lparr>heap := (heap s)(this \<mapsto>
                          d\<lparr>doc_workspaceIds := doc_workspaceIds d @ [workspaceId]\<rparr>)\<rparr>
                 else s)"

definition DocumentsStore_addDocument :: "nat \<Rightarrow> keystone_run \<Rightarrow> keystone_run" where
  "DocumentsStore_addDocument document =
     mutate ''DocumentsStore.addDocument''
       (\<lambda>s. case heap s document of
               None \<Rightarrow> s
             | Some d \<Rightarrow> s\<lparr>ks_documents := (ks_documents s)(doc_id d \<mapsto> document)\<rparr>)"

definition getDocument :: "keystone_state \<Rightarrow> string \<Rightarrow> nat option" where
  "getDocument s ident = ks_documents s ident"

text \<open>What a reader of the store sees under an id: the instance the id refers to.\<close>

definition keystone_documents :: "keystone_state \<Rightarrow> DocumentsState" where
  "keystone_documents s ident =
     (case getDocument s ident of None \<Rightarrow> None | Some ref \<Rightarrow> heap s ref)"

definition keystone_createDocumentDirectory :: "string \<Rightarrow> error + string" where
  "keystone_createDocumentDirectory ident = Inr (''C:/Users/trey/'' @ ident)"

definition keystone_createPageDirectory :: "string \<Rightarrow> string \<Rightarrow> error + string" where
  "keystone_createPageDirectory path ident = Inr (path @ ''/'' @ ident)"

definition keystone_writePageContents :: "string \<Rightarrow> string \<Rightarrow> error + unit" where
  "keystone_writePageContents path content = Inl (Error ''LOL'')"

definition keystone_createPageAction ::
  "nat \<Rightarrow> string \<Rightarrow> string \<Rightarrow> keystone_run \<Rightarrow> (error + unit) \<times> keystone_run" where
  "keystone_createPageAction document path pageId r0 =
     (let page = \<lparr>page_id = pageId, page_title = ''New Page'', page_content = ''''\<rparr>;
          r1 = Document_addPage document page r0;
          body =
            (case await ''createPageDirectory''
                    (keystone_createPageDirectory path pageId) r1 of
               (Inl err, r2) \<Rightarrow> (Inl err, r2)
             | (Inr pagePath, r2) \<Rightarrow>
                 (case await ''writePageContents''
                         (keystone_writePageContents pagePath '''') r2 of
                    (Inl err, r3) \<Rightarrow> (Inl err, r3)
                  | (Inr done, r3) \<Rightarrow> (Inr (), console ''Created page'' r3)))
      in case body of
           (Inl err, r4) \<Rightarrow> (Inl err, console ''Failed to create page:'' r4)
         | (Inr done, r4) \<Rightarrow> (Inr (), r4))"

definition keystone_createDocument :: "string \<Rightarrow> string \<Rightarrow> keystone_run \<Rightarrow> keystone_run" where
  "keystone_createDocument ident pageId r0 =
     (let r1 = console ''Creating document'' r0;
          (document, r2) =
             new_Document \<lparr>doc_id = ident, doc_path = ''C:/Users/trey/'' @ ident,
                            doc_title = ''New Document'', doc_pages = [],
                            doc_workspaceIds = []\<rparr> r1;
          r3 = DocumentsStore_addDocument document r2;
          body =
            (case await ''createDocumentDirectory''
                    (keystone_createDocumentDirectory ident) r3 of
               (Inl err, r4) \<Rightarrow> (Inl err, r4)
             | (Inr path, r4) \<Rightarrow>
                 (case keystone_createPageAction document path pageId r4 of
                    (Inl err, r5) \<Rightarrow> (Inl err, r5)
                  | (Inr done, r5) \<Rightarrow> (Inr (), console ''Created document'' r5)))
      in case body of
           (Inl err, r6) \<Rightarrow> console ''Failed to create document:'' r6
         | (Inr done, r6) \<Rightarrow> r6)"

text \<open>The route's handler (\<^verbatim>\<open>handleAddToWorkspace\<close> in \<^verbatim>\<open>src/unnamed/part_006\<close>) looks
  the instance up and calls its action only when it is there.\<close>

definition keystone_handleAddToWorkspace ::
  "string \<Rightarrow> string \<Rightarrow> keystone_run \<Rightarrow> keystone_run" where
  "keystone_handleAddToWorkspace documentId workspaceId r =
     (case getDocument (store r) documentId of
        None \<Rightarrow> r
      | Some document \<Rightarrow> Document_addToWorkspace document workspaceId r)"

definition keystone_fetchWorkspacesFromDB :: "error + Workspace list" where
  "keystone_fetchWorkspacesFromDB = Inr
     [\<lparr>ws_id = ''workspace-1'', ws_name = ''Personal Projects'',
       ws_documents = Some
         [\<lparr>doc_id = ''doc-workspace-1-1'', doc_path = ''C:/Users/trey/workspace-1/doc-1'',
           doc_title = ''Personal Website'', doc_pages = [],
           doc_workspaceIds = [''workspace-1'']\<rparr>,
          \<lparr>doc_id = ''doc-workspace-1-2'', doc_path = ''C:/Users/trey/workspace-1/doc-2'',
           doc_title = ''Side Project Ideas'', doc_pages = [],
           doc_workspaceIds = [''workspace-1'']\<rparr>]\<rparr>,
      \<lparr>ws_id = ''workspace-2'', ws_name = ''Work Documents'',
       ws_documents = Some
         [\<lparr>doc_id = ''doc-workspace-2-1'', doc_path = ''C:/Users/trey/workspace-2/doc-1'',
           doc_title = ''Q4 Planning'', doc_pages = [],
           doc_workspaceIds = [''workspace-2'']\<rparr>]\<rparr>,
      \<lparr>ws_id = ''workspace-3'', ws_name = ''Research'',
       ws_documents = Some
         [\<lparr>doc_id = ''doc-workspace-3-1'', doc_path = ''C:/Users/trey/workspace-3/doc-1'',
           doc_title = ''State Management Comparison'', doc_pages = [],
           doc_workspaceIds = [''workspace-3'']\<rparr>,
          \<lparr>doc_id = ''doc-workspace-3-2'', doc_path = ''C:/Users/trey/workspace-3/doc-2'',
           doc_title = ''React Patterns'', doc_pages = [],
           doc_workspaceIds = [''workspace-3'']\<rparr>]\<rparr>]"

text \<open>
  \<^verbatim>\<open>fetchWorkspaces\<close> builds a fresh instance with empty pages for every embedded
  document and adds it to the documents store, then writes a fresh workspace under every
  workspace id. The root store is registered at start-up, so the guard on it passes.
\<close>

definition keystone_fetchWorkspaces :: "keystone_run \<Rightarrow> keystone_run" where
  "keystone_fetchWorkspaces r0 =
     (case await ''fetchWorkspacesFromDB'' keystone_fetchWorkspacesFromDB r0 of
        (Inl err, r1) \<Rightarrow> console ''Failed to fetch workspaces:'' r1
      | (Inr fetched, r1) \<Rightarrow>
          (let r2 = foldl (\<lambda>r workspace.
                             foldl (\<lambda>r docData.
                                      let (document, r') =
                                            new_Document
                                              \<lparr>doc_id = doc_id docData,
                                               doc_path = doc_path docData,
                                               doc_title = doc_title docData,
                                               doc_pages = [],
                                               doc_workspaceIds = doc_workspaceIds docData\<rparr> r
                                      in DocumentsStore_addDocument document r')
                                   r (embedded_documents workspace))
                          r1 fetched;
               r3 = foldl (\<lambda>r workspaceData.
                             mutate ''WorkspacesStore.workspaces''
                               (\<lambda>s. s\<lparr>ks_workspaces :=
                                      (ks_workspaces s)(ws_id workspaceData \<mapsto>
                                         \<lparr>ws_id = ws_id workspaceData,
                                          ws_name = ws_name workspaceData,
                                          ws_documents = None\<rparr>)\<rparr>) r)
                          r2 fetched
           in console ''Fetched workspaces'' r3))"

section \<open>Predicates the properties are stated with\<close>

text \<open>The documents hold, under the id \<open>d\<close>, a document with that id whose pages are
  exactly one page titled "New Page".\<close>

definition has_single_new_page :: "DocumentsState \<Rightarrow> string \<Rightarrow> bool" where
  "has_single_new_page docs d =
     (case docs d of
        None \<Rightarrow> False
      | Some doc \<Rightarrow> doc_id doc = d \<and> map page_title (doc_pages doc) = [''New Page''])"


text \<open>The store a run ends with is the store as it was when \<^verbatim>\<open>writePageContents\<close> was
  called, and every state change recorded after that call produced that same store.\<close>

definition halts_at_failed_write :: "('a, 's) run \<Rightarrow> bool" where
  "halts_at_failed_write r =
     (state_at_call ''writePageContents'' (trace r) = Some (store r)
      \<and> set (snapshots (events_after_call ''writePageContents'' (trace r))) \<subseteq> {store r})"

section \<open>States reachable through the demonstrated operations\<close>

text \<open>
  The routes offer three operations: create a document, load the workspaces, and add a
  document to a workspace. A store is reachable when it is the initial store or the store
  one of the three leaves behind when run on a reachable store. The identifiers a
  workflow draws and the pair the user picks are arbitrary.
\<close>

inductive vanilla_reachable :: "RootState \<Rightarrow> bool" where
  vanilla_initial: "vanilla_reachable initialRootState"
| vanilla_create:
    "vanilla_reachable s \<Longrightarrow> vanilla_reachable (store (snd (vanilla_createDocument d p (start s))))"
| vanilla_fetch:
    "vanilla_reachable s \<Longrightarrow> vanilla_reachable (store (vanilla_fetchWorkspaces (start s)))"
| vanilla_attach:
    "vanilla_reachable s \<Longrightarrow>
     vanilla_reachable (store (snd (vanilla_dispatch (vanilla_addDocumentToWorkspace d w) (start s))))"

inductive thunks_reachable :: "RootState \<Rightarrow> bool" where
  thunks_initial: "thunks_reachable initialRootState"
| thunks_create:
    "thunks_reachable s \<Longrightarrow>
     thunks_reachable (store (snd (thunks_createDocument d x p (start s))))"
| thunks_fetch:
    "thunks_reachable s \<Longrightarrow> thunks_reachable (store (snd (thunks_fetchWorkspaces (start s))))"
| thunks_attach:
    "thunks_reachable s \<Longrightarrow>
     thunks_reachable (store (snd (thunks_dispatch (AddDocumentToWorkspace d w) (start s))))"

inductive keystone_reachable :: "keystone_state \<Rightarrow> bool" where
  keystone_initial: "keystone_reachable keystone_initialState"
| keystone_create:
    "keystone_reachable s \<Longrightarrow>
     keystone_reachable (store (keystone_createDocument d p (start s)))"
| keystone_fetch:
    "keystone_reachable s \<Longrightarrow> keystone_reachable (store (keystone_fetchWorkspaces (start s)))"
| keystone_attach:
    "keystone_reachable s \<Longrightarrow>
     keystone_reachable (store (keystone_handleAddToWorkspace d w (start s)))"

inductive atom_reachable :: "RootState \<Rightarrow> bool" where
  atom_initial: "atom_reachable initialRootState"
| atom_create:
    "atom_reachable s \<Longrightarrow> atom_reachable (store (snd (atom_createDocument d p (start s))))"
| atom_fetch:
    "atom_reachable s \<Longrightarrow> atom_reachable (store (snd (atom_fetchWorkspaces (start s))))"
| atom_attach:
    "atom_reachable s \<Longrightarrow>
     atom_reachable (store (snd (atom_addDocumentToWorkspace d w (start s))))"

inductive zustand_reachable :: "RootState \<Rightarrow> bool" where
  zustand_initial: "zustand_reachable initialRootState"
| zustand_create:
    "zustand_reachable s \<Longrightarrow> zustand_reachable (store (zustand_createDocument d p (start s)))"
| zustand_fetch:
    "zustand_reachable s \<Longrightarrow> zustand_reachable (store (zustand_fetchWorkspaces (start s)))"
| zustand_attach:
    "zustand_reachable s \<Longrightarrow>
     zustand_reachable (store (zustand_addDocumentToWorkspace d w (start s)))"

text \<open>No document of a collection lists a workspace id twice.\<close>

definition no_duplicate_workspaceIds :: "('k \<rightharpoonup> Document) \<Rightarrow> bool" where
  "no_duplicate_workspaceIds docs =
     (\<forall>k doc. docs k = Some doc \<longrightarrow> distinct (doc_workspaceIds doc))"

section \<open>Creating several documents in a row\<close>

text \<open>An operation invoked once for every item of a list, each invocation on the store
  the one before it left. For create-document an item is the pair of identifiers the
  invocation draws: the document id and the page id (with the page-directory id between
  them in the thunk variant).\<close>

definition invoke_each :: "('i \<Rightarrow> 's \<Rightarrow> 's) \<Rightarrow> 'i list \<Rightarrow> 's \<Rightarrow> 's" where
  "invoke_each operation items s = foldl (\<lambda>state item. operation item state) s items"

definition vanilla_create :: "string \<times> string \<Rightarrow> RootState \<Rightarrow> RootState" where
  "vanilla_create ids s = store (snd (vanilla_createDocument (fst ids) (snd ids) (start s)))"

definition atom_create :: "string \<times> string \<Rightarrow> RootState \<Rightarrow> RootState" where
  "atom_create ids s = store (snd (atom_createDocument (fst ids) (snd ids) (start s)))"

definition thunks_create :: "string \<times> string \<times> string \<Rightarrow> RootState \<Rightarrow> RootState" where
  "thunks_create ids s =
     store (snd (thunks_createDocument (fst ids) (fst (snd ids)) (snd (snd ids)) (start s)))"

definition sagas_create :: "string \<times> string \<Rightarrow> RootState \<Rightarrow> RootState" where
  "sagas_create ids s = store (createDocumentSaga (fst ids) (snd ids) (start s))"

definition epics_create :: "string \<times> string \<Rightarrow> RootState \<Rightarrow> RootState" where
  "epics_create ids s = store (snd (createPageEpic (fst ids) (snd ids) (start s)))"

definition zustand_create :: "string \<times> string \<Rightarrow> RootState \<Rightarrow> RootState" where
  "zustand_create ids s = store (zustand_createDocument (fst ids) (snd ids) (start s))"

definition keystone_create :: "string \<times> string \<Rightarrow> keystone_state \<Rightarrow> keystone_state" where
  "keystone_create ids s = store (keystone_createDocument (fst ids) (snd ids) (start s))"

text \<open>Every reference the documents store holds was handed out by the allocator
  before, so the next instance does not alias a stored one: in JavaScript this is what
  \<^verbatim>\<open>new\<close> guarantees, and every reachable store of the model has it.\<close>

definition fresh_allocator :: "keystone_state \<Rightarrow> bool" where
  "fresh_allocator s = (\<forall>k r. ks_documents s k = Some r \<longrightarrow> r < next_ref s)"

text \<open>The documents hold, under the id \<open>d\<close>, a document with that id whose pages are
  exactly the one page with the id \<open>p\<close>.\<close>

definition holds_own_page :: "DocumentsState \<Rightarrow> string \<Rightarrow> string \<Rightarrow> bool" where
  "holds_own_page docs d p =
     (case docs d of
        None \<Rightarrow> False
      | Some doc \<Rightarrow> doc_id doc = d \<and> map page_id (doc_pages doc) = [p])"

text \<open>After the invocations that drew the identifier pairs \<open>created\<close>, every created
  document is there with its own page as its only page, and the documents under all other
  ids are what they were before.\<close>

definition created_separately ::
  "DocumentsState \<Rightarrow> DocumentsState \<Rightarrow> (string \<times> string) list \<Rightarrow> bool" where
  "created_separately before after created =
     ((\<forall>(d, p) \<in> set created. holds_own_page after d p)
      \<and> (\<forall>k. k \<notin> fst ` set created \<longrightarrow> after k = before k))"

text \<open>The document the source builds for the id \<open>d\<close>, with the page it builds for the
  id \<open>p\<close> appended.\<close>

definition settled_document :: "string \<Rightarrow> string \<Rightarrow> Document" where
  "settled_document d p =
     \<lparr>doc_id = d, doc_path = ''C:/Users/trey/'' @ d, doc_title = ''New Document'',
      doc_pages = [\<lparr>page_id = p, page_title = ''New Page'', page_content = ''''\<rparr>],
      doc_workspaceIds = []\<rparr>"

section \<open>What a fetch and an attach leave in the store\<close>

text \<open>The three workspaces the specification names, each with its id and name only, written over
  a workspaces collection under their ids. This follows the words of the specification, not the
  source; the theorems compare what each variant's fetch stores and returns with it.\<close>

definition spec_workspaces :: "WorkspacesState \<Rightarrow> WorkspacesState" where
  "spec_workspaces held =
     held(''workspace-1'' \<mapsto>
            \<lparr>ws_id = ''workspace-1'', ws_name = ''Personal Projects'', ws_documents = None\<rparr>,
          ''workspace-2'' \<mapsto>
            \<lparr>ws_id = ''workspace-2'', ws_name = ''Work Documents'', ws_documents = None\<rparr>,
          ''workspace-3'' \<mapsto>
            \<lparr>ws_id = ''workspace-3'', ws_name = ''Research'', ws_documents = None\<rparr>)"



section \<open>Verified properties\<close>

lemmas run_defs = start_def mutate_def await_def console_def rtk_dispatch_def Let_def

lemmas vanilla_defs =
  vanilla_createDocument_def vanilla_dispatch_def js_get_def
  vanilla_rootReducer_def vanilla_addDocument_def vanilla_addPage_def
  vanilla_removeDocument_def vanilla_addDocumentToWorkspace_def vanilla_setWorkspaces_def
  vanilla_createDocumentDirectory_def vanilla_createPageDirectory_def
  vanilla_writePageContents_def

lemmas atom_defs =
  atom_createDocument_def atom_createPage_def atom_createPage_update_def
  atom_createDocumentDirectory_def atom_createPageDirectory_def atom_writePageContents_def
  atom_addDocumentToWorkspace_def atom_addDocumentToWorkspace_update_def

lemmas thunks_defs =
  thunks_createDocument_def thunks_createPage_def thunks_createDocumentDirectory_def
  thunks_createPageDirectory_def thunks_writePageContents_def createAsyncThunk_def
  thunks_dispatch_def thunks_rootReducer_def

lemmas sagas_defs =
  createDocumentSaga_def createPageSaga_def put_def sagas_rootReducer_def
  sagas_createDocumentDirectory_def sagas_createPageDirectory_def sagas_writePageContents_def

lemmas epics_defs =
  createPageEpic_def emit_def observables_rootReducer_def
  epics_createDocumentDirectory_def epics_createPageDirectory_def epics_writePageContents_def

lemmas zustand_defs =
  zustand_createDocument_def zustand_createPageAction_def zustand_addDocument_def
  zustand_addPage_def zustand_addDocumentToWorkspace_def
  zustand_createDocumentDirectory_def zustand_createPageDirectory_def
  zustand_writePageContents_def

lemmas keystone_defs =
  keystone_createDocument_def keystone_createPageAction_def new_Document_def
  Document_addPage_def Document_addToWorkspace_def DocumentsStore_addDocument_def
  getDocument_def keystone_documents_def keystone_handleAddToWorkspace_def
  keystone_createDocumentDirectory_def keystone_createPageDirectory_def
  keystone_writePageContents_def

subsection \<open>What one create-document workflow leaves behind\<close>

text \<open>The document each variant holds under the new id once the workflow has settled,
  whatever the store held before.\<close>

lemma vanilla_createDocument_result:
  "documents (store (snd (vanilla_createDocument d p r))) d =
     Some \<lparr>doc_id = d, doc_path = ''C:/Users/trey/'' @ d, doc_title = ''New Document'',
           doc_pages = [\<lparr>page_id = p, page_title = ''New Page'', page_content = ''''\<rparr>],
           doc_workspaceIds = []\<rparr>"
  by (simp add: vanilla_defs run_defs)

lemma atom_createDocument_result:
  "documents (store (snd (atom_createDocument d p r))) d =
     Some \<lparr>doc_id = d, doc_path = ''C:/Users/trey/'' @ d, doc_title = ''New Document'',
           doc_pages = [\<lparr>page_id = p, page_title = ''New Page'', page_content = ''''\<rparr>],
           doc_workspaceIds = []\<rparr>"
  by (simp add: atom_defs run_defs)

lemma thunks_createDocument_result:
  "documents (store (snd (thunks_createDocument d x p r))) d =
     Some \<lparr>doc_id = d, doc_path = ''C:/Users/trey/'' @ d, doc_title = ''New Document'',
           doc_pages = [\<lparr>page_id = p, page_title = ''New Page'', page_content = ''''\<rparr>],
           doc_workspaceIds = []\<rparr>"
  by (simp add: thunks_defs run_defs)

lemma createDocumentSaga_result:
  "documents (store (createDocumentSaga d p r)) d =
     Some \<lparr>doc_id = d, doc_path = ''C:/Users/trey/'' @ d, doc_title = ''New Document'',
           doc_pages = [\<lparr>page_id = p, page_title = ''New Page'', page_content = ''''\<rparr>],
           doc_workspaceIds = []\<rparr>"
  by (simp add: sagas_defs run_defs)

lemma createPageEpic_result:
  "documents (store (snd (createPageEpic d p r))) d =
     Some \<lparr>doc_id = d, doc_path = ''C:/Users/trey/'' @ d, doc_title = ''New Document'',
           doc_pages = [\<lparr>page_id = p, page_title = ''New Page'', page_content = ''''\<rparr>],
           doc_workspaceIds = []\<rparr>"
  by (simp add: epics_defs run_defs)

lemma zustand_createDocument_result:
  "documents (store (zustand_createDocument d p r)) d =
     Some \<lparr>doc_id = d, doc_path = ''C:/Users/trey/'' @ d, doc_title = ''New Document'',
           doc_pages = [\<lparr>page_id = p, page_title = ''New Page'', page_content = ''''\<rparr>],
           doc_workspaceIds = []\<rparr>"
  by (simp add: zustand_defs run_defs)

lemma keystone_createDocument_result:
  "keystone_documents (store (keystone_createDocument d p r)) d =
     Some \<lparr>doc_id = d, doc_path = ''C:/Users/trey/'' @ d, doc_title = ''New Document'',
           doc_pages = [\<lparr>page_id = p, page_title = ''New Page'', page_content = ''''\<rparr>],
           doc_workspaceIds = []\<rparr>"
  by (simp add: keystone_defs run_defs)

text \<open>
  Claim C1. In every variant, after one create-document workflow has settled (its
  content-write step having failed), the state holds the new document under its id and
  that document's pages are exactly one page, titled "New Page". The identifiers \<open>d\<close>,
  \<open>p\<close> (and \<open>x\<close>, the page-directory id of the thunk variant) are the ones drawn from the
  random generator; \<open>r\<close>, \<open>a\<close>, \<open>t\<close>, \<open>z\<close> and \<open>k\<close> are any runs the workflows start from.
\<close>

theorem createDocument_yields_single_new_page:
  "has_single_new_page (documents (store (snd (vanilla_createDocument d p r)))) d
   \<and> has_single_new_page (documents (store (snd (atom_createDocument d p a)))) d
   \<and> has_single_new_page (documents (store (snd (thunks_createDocument d x p t)))) d
   \<and> has_single_new_page (documents (store (createDocumentSaga d p t))) d
   \<and> has_single_new_page (documents (store (snd (createPageEpic d p t)))) d
   \<and> has_single_new_page (documents (store (zustand_createDocument d p z))) d
   \<and> has_single_new_page (keystone_documents (store (keystone_createDocument d p k))) d"
  by (simp add: has_single_new_page_def vanilla_createDocument_result
        atom_createDocument_result thunks_createDocument_result createDocumentSaga_result
        createPageEpic_result zustand_createDocument_result keystone_createDocument_result)

subsection \<open>The one failing operation\<close>

text \<open>
  Claim C4. In every variant \<^verbatim>\<open>writePageContents\<close> fails on every input with the one
  hard-coded error, message "LOL", and the other simulated operations
  (\<^verbatim>\<open>createDocumentDirectory\<close>, \<^verbatim>\<open>createPageDirectory\<close> and the workspaces fetch) return a
  value on every input. In the thunk variant the operations are async thunks and the
  result is the action the dispatch resolves to; the Effect-Atom, thunk and Zustand
  fetches have no separate database function, so their own result stands for it.
\<close>

theorem only_writePageContents_fails:
  "(vanilla_writePageContents path content = Inl (Error ''LOL'')
    \<and> atom_writePageContents path content = Inl (Error ''LOL'')
    \<and> fst (thunks_writePageContents path content t) = Inl (Error ''LOL'')
    \<and> sagas_writePageContents path content = Inl (Error ''LOL'')
    \<and> epics_writePageContents = Inl (Error ''LOL'')
    \<and> zustand_writePageContents path content = Inl (Error ''LOL'')
    \<and> keystone_writePageContents path content = Inl (Error ''LOL''))
   \<and> (vanilla_createDocumentDirectory ident = Inr (''C:/Users/trey/'' @ ident)
    \<and> atom_createDocumentDirectory ident = Inr (''C:/Users/trey/'' @ ident)
    \<and> fst (thunks_createDocumentDirectory ident t) = Inr (''C:/Users/trey/'' @ ident)
    \<and> sagas_createDocumentDirectory ident = Inr (''C:/Users/trey/'' @ ident)
    \<and> epics_createDocumentDirectory ident = Inr (''C:/Users/trey/'' @ ident)
    \<and> zustand_createDocumentDirectory ident = Inr (''C:/Users/trey/'' @ ident)
    \<and> keystone_createDocumentDirectory ident = Inr (''C:/Users/trey/'' @ ident))
   \<and> (vanilla_createPageDirectory path ident = Inr (path @ ''/'' @ ident)
    \<and> atom_createPageDirectory path ident = Inr (path @ ''/'' @ ident)
    \<and> fst (thunks_createPageDirectory path ident t) = Inr (path @ ''/'' @ ident)
    \<and> sagas_createPageDirectory path ident = Inr (path @ ''/'' @ ident)
    \<and> epics_createPageDirectory path ident = Inr (path @ ''/'' @ ident)
    \<and> zustand_createPageDirectory path ident = Inr (path @ ''/'' @ ident)
    \<and> keystone_createPageDirectory path ident = Inr (path @ ''/'' @ ident))
   \<and> (\<not> isl vanilla_fetchWorkspacesData
    \<and> \<not> isl (fst (atom_fetchWorkspaces r))
    \<and> \<not> isl (fst (thunks_fetchWorkspaces t))
    \<and> \<not> isl fetchWorkspacesFromDB
    \<and> \<not> isl epics_fetchWorkspaces
    \<and> \<not> isl keystone_fetchWorkspacesFromDB
    \<and> last (trace (zustand_fetchWorkspaces r)) = Console ''Fetched workspaces'')"
  by (simp add: vanilla_defs atom_defs thunks_defs sagas_defs epics_defs zustand_defs keystone_defs
        run_defs vanilla_fetchWorkspacesData_def atom_fetchWorkspaces_def
        thunks_fetchWorkspaces_def fetchWorkspacesFromDB_def epics_fetchWorkspaces_def
        keystone_fetchWorkspacesFromDB_def zustand_fetchWorkspaces_def
        thunks_workspaces_def embedded_documents_def)

subsection \<open>A failed content write changes nothing\<close>

lemma vanilla_halts: "halts_at_failed_write (snd (vanilla_createDocument d p (start s)))"
  by (simp add: halts_at_failed_write_def vanilla_defs run_defs)

lemma atom_halts: "halts_at_failed_write (snd (atom_createDocument d p (start s)))"
  by (simp add: halts_at_failed_write_def atom_defs run_defs)

lemma thunks_halts: "halts_at_failed_write (snd (thunks_createDocument d x p (start s)))"
  by (simp add: halts_at_failed_write_def thunks_defs run_defs)

lemma sagas_halts: "halts_at_failed_write (createDocumentSaga d p (start s))"
  by (simp add: halts_at_failed_write_def sagas_defs run_defs)

lemma epics_halts: "halts_at_failed_write (snd (createPageEpic d p (start s)))"
  by (simp add: halts_at_failed_write_def epics_defs run_defs)

lemma zustand_halts: "halts_at_failed_write (zustand_createDocument d p (start s))"
  by (simp add: halts_at_failed_write_def zustand_defs run_defs)

lemma keystone_halts: "halts_at_failed_write (keystone_createDocument d p (start h))"
  by (simp add: halts_at_failed_write_def keystone_defs run_defs)

text \<open>
  Claim C5. In every variant, when the content-write step of create-document fails, the
  workflow changes the state no further and rolls nothing back: the state the workflow
  settles in is the state as it was when \<^verbatim>\<open>writePageContents\<close> was called, every state
  change recorded after that call left it as it was, and the document inserted
  optimistically is still there with its page. The workflow starts from any store \<open>s\<close>
  (\<open>h\<close> for the MobX-Keystone store).
\<close>

theorem failed_write_halts_without_rollback:
  "(halts_at_failed_write (snd (vanilla_createDocument d p (start s)))
    \<and> has_single_new_page (documents (store (snd (vanilla_createDocument d p (start s))))) d)
   \<and> (halts_at_failed_write (snd (atom_createDocument d p (start s)))
    \<and> has_single_new_page (documents (store (snd (atom_createDocument d p (start s))))) d)
   \<and> (halts_at_failed_write (snd (thunks_createDocument d x p (start s)))
    \<and> has_single_new_page (documents (store (snd (thunks_createDocument d x p (start s))))) d)
   \<and> (halts_at_failed_write (createDocumentSaga d p (start s))
    \<and> has_single_new_page (documents (store (createDocumentSaga d p (start s)))) d)
   \<and> (halts_at_failed_write (snd (createPageEpic d p (start s)))
    \<and> has_single_new_page (documents (store (snd (createPageEpic d p (start s))))) d)
   \<and> (halts_at_failed_write (zustand_createDocument d p (start s))
    \<and> has_single_new_page (documents (store (zustand_createDocument d p (start s)))) d)
   \<and> (halts_at_failed_write (keystone_createDocument d p (start h))
    \<and> has_single_new_page
          (keystone_documents (store (keystone_createDocument d p (start h)))) d)"
  by (simp add: vanilla_halts atom_halts thunks_halts sagas_halts epics_halts zustand_halts
        keystone_halts has_single_new_page_def vanilla_createDocument_result
        atom_createDocument_result thunks_createDocument_result createDocumentSaga_result
        createPageEpic_result zustand_createDocument_result keystone_createDocument_result)

subsection \<open>Fetching workspaces overwrites the fixture documents\<close>

text \<open>The documents after a fetch are the documents before it with the five embedded
  documents written over them, in the order of the fixture.\<close>

lemma vanilla_fetch_documents:
  "documents (store (vanilla_fetchWorkspaces r)) =
     foldl (\<lambda>docs doc. docs(doc_id doc \<mapsto> doc)) (documents (store r))
       (concat (map embedded_documents atom_workspaces))"
  by (simp add: vanilla_fetchWorkspaces_def vanilla_fetchWorkspacesData_def atom_workspaces_def
        embedded_documents_def vanilla_defs run_defs)

lemma atom_fetch_documents:
  "documents (store (snd (atom_fetchWorkspaces r))) =
     foldl (\<lambda>docs doc. docs(doc_id doc \<mapsto> doc)) (documents (store r))
       (concat (map embedded_documents atom_workspaces))"
  by (simp add: atom_fetchWorkspaces_def atom_fetchWorkspaces_update_def atom_workspaces_def
        embedded_documents_def run_defs)


lemma fixture_documents_shape:
  "map doc_id (concat (map embedded_documents atom_workspaces))
     = [''doc-workspace-1-1'', ''doc-workspace-1-2'', ''doc-workspace-2-1'',
        ''doc-workspace-3-1'', ''doc-workspace-3-2'']
   \<and> map doc_pages (concat (map embedded_documents atom_workspaces)) = [[], [], [], [], []]
   \<and> map doc_workspaceIds (concat (map embedded_documents atom_workspaces))
       = concat (map (\<lambda>workspace. map (\<lambda>doc. [ws_id workspace]) (embedded_documents workspace))
                     atom_workspaces)"
  by (simp add: atom_workspaces_def embedded_documents_def)

lemma vanilla_fetch_sets_fixture:
  "map (documents (store (vanilla_fetchWorkspaces r)))
     [''doc-workspace-1-1'', ''doc-workspace-1-2'', ''doc-workspace-2-1'',
      ''doc-workspace-3-1'', ''doc-workspace-3-2'']
   = map Some (concat (map embedded_documents atom_workspaces))"
  by (simp add: vanilla_fetch_documents atom_workspaces_def embedded_documents_def)

lemma atom_fetch_sets_fixture:
  "map (documents (store (snd (atom_fetchWorkspaces a))))
     [''doc-workspace-1-1'', ''doc-workspace-1-2'', ''doc-workspace-2-1'',
      ''doc-workspace-3-1'', ''doc-workspace-3-2'']
   = map Some (concat (map embedded_documents atom_workspaces))"
  by (simp add: atom_fetch_documents atom_workspaces_def embedded_documents_def)

lemma vanilla_fetch_keeps_others:
  "k \<notin> set [''doc-workspace-1-1'', ''doc-workspace-1-2'', ''doc-workspace-2-1'',
             ''doc-workspace-3-1'', ''doc-workspace-3-2'']
   \<Longrightarrow> documents (store (vanilla_fetchWorkspaces r)) k = documents (store r) k"
  by (simp add: vanilla_fetch_documents atom_workspaces_def embedded_documents_def)

lemma atom_fetch_keeps_others:
  "k \<notin> set [''doc-workspace-1-1'', ''doc-workspace-1-2'', ''doc-workspace-2-1'',
             ''doc-workspace-3-1'', ''doc-workspace-3-2'']
   \<Longrightarrow> documents (store (snd (atom_fetchWorkspaces a))) k = documents (store a) k"
  by (simp add: atom_fetch_documents atom_workspaces_def embedded_documents_def)

lemma vanilla_membership_added:
  "w \<noteq> ''workspace-1'' \<Longrightarrow>
   map_option doc_workspaceIds
     (documents
        (store (snd (vanilla_dispatch (vanilla_addDocumentToWorkspace ''doc-workspace-1-1'' w)
                  (vanilla_fetchWorkspaces r))))
        ''doc-workspace-1-1'')
   = Some [''workspace-1'', w]"
  by (simp add: vanilla_dispatch_def vanilla_rootReducer_def vanilla_addDocumentToWorkspace_def
        js_get_def mutate_def Let_def vanilla_fetch_documents atom_workspaces_def
        embedded_documents_def)

lemma vanilla_membership_discarded:
  "map_option doc_workspaceIds
     (documents
        (store (vanilla_fetchWorkspaces
                  (snd (vanilla_dispatch (vanilla_addDocumentToWorkspace ''doc-workspace-1-1'' w)
                     (vanilla_fetchWorkspaces r)))))
        ''doc-workspace-1-1'')
   = Some [''workspace-1'']"
  by (simp add: vanilla_fetch_documents [of "snd (vanilla_dispatch x y)" for x y]
        atom_workspaces_def embedded_documents_def)

lemma atom_membership_added:
  "w \<noteq> ''workspace-1'' \<Longrightarrow>
   map_option doc_workspaceIds
     (documents
        (store (snd (atom_addDocumentToWorkspace ''doc-workspace-1-1'' w
                       (snd (atom_fetchWorkspaces a)))))
        ''doc-workspace-1-1'')
   = Some [''workspace-1'', w]"
  by (simp add: atom_addDocumentToWorkspace_def atom_addDocumentToWorkspace_update_def
        mutate_def console_def Let_def atom_fetch_documents atom_workspaces_def
        embedded_documents_def)

lemma atom_membership_discarded:
  "map_option doc_workspaceIds
     (documents
        (store (snd (atom_fetchWorkspaces
                       (snd (atom_addDocumentToWorkspace ''doc-workspace-1-1'' w
                               (snd (atom_fetchWorkspaces a)))))))
        ''doc-workspace-1-1'')
   = Some [''workspace-1'']"
  by (simp add: atom_fetch_documents [of "snd (atom_addDocumentToWorkspace x y z)" for x y z]
        atom_workspaces_def embedded_documents_def)

text \<open>
  Claim C9. Whatever the store held before, fetch-workspaces leaves under each of the five
  fixture document ids exactly the fixture document (no pages, and the owning workspace
  as its only workspace id), and leaves the documents under every other id \<open>k\<close> as they
  were. In particular a membership \<open>w\<close> added to a fixture document after one fetch is
  gone after the next. Stated for the vanilla Redux thunk (run \<open>r\<close>) and the Effect-Atom
  service (run \<open>a\<close>).
\<close>

theorem fetch_overwrites_fixture_documents:
  assumes "k \<notin> set [''doc-workspace-1-1'', ''doc-workspace-1-2'', ''doc-workspace-2-1'',
                      ''doc-workspace-3-1'', ''doc-workspace-3-2'']"
      and "w \<noteq> ''workspace-1''"
  shows "(map (documents (store (vanilla_fetchWorkspaces r)))
            [''doc-workspace-1-1'', ''doc-workspace-1-2'', ''doc-workspace-2-1'',
             ''doc-workspace-3-1'', ''doc-workspace-3-2'']
          = map Some (concat (map embedded_documents atom_workspaces))
        \<and> map (documents (store (snd (atom_fetchWorkspaces a))))
            [''doc-workspace-1-1'', ''doc-workspace-1-2'', ''doc-workspace-2-1'',
             ''doc-workspace-3-1'', ''doc-workspace-3-2'']
          = map Some (concat (map embedded_documents atom_workspaces)))
       \<and> (map doc_id (concat (map embedded_documents atom_workspaces))
            = [''doc-workspace-1-1'', ''doc-workspace-1-2'', ''doc-workspace-2-1'',
               ''doc-workspace-3-1'', ''doc-workspace-3-2'']
          \<and> map doc_pages (concat (map embedded_documents atom_workspaces))
            = [[], [], [], [], []]
          \<and> map doc_workspaceIds (concat (map embedded_documents atom_workspaces))
            = concat (map (\<lambda>workspace.
                             map (\<lambda>doc. [ws_id workspace]) (embedded_documents workspace))
                          atom_workspaces))
       \<and> (documents (store (vanilla_fetchWorkspaces r)) k = documents (store r) k
          \<and> documents (store (snd (atom_fetchWorkspaces a))) k = documents (store a) k)
       \<and> (map_option doc_workspaceIds
             (documents
                (store (snd (vanilla_dispatch
                          (vanilla_addDocumentToWorkspace ''doc-workspace-1-1'' w)
                          (vanilla_fetchWorkspaces r))))
                ''doc-workspace-1-1'')
            = Some [''workspace-1'', w]
          \<and> map_option doc_workspaceIds
             (documents
                (store (vanilla_fetchWorkspaces
                          (snd (vanilla_dispatch
                             (vanilla_addDocumentToWorkspace ''doc-workspace-1-1'' w)
                             (vanilla_fetchWorkspaces r)))))
                ''doc-workspace-1-1'')
            = Some [''workspace-1''])
       \<and> (map_option doc_workspaceIds
             (documents
                (store (snd (atom_addDocumentToWorkspace ''doc-workspace-1-1'' w
                               (snd (atom_fetchWorkspaces a)))))
                ''doc-workspace-1-1'')
            = Some [''workspace-1'', w]
          \<and> map_option doc_workspaceIds
             (documents
                (store (snd (atom_fetchWorkspaces
                               (snd (atom_addDocumentToWorkspace ''doc-workspace-1-1'' w
                                       (snd (atom_fetchWorkspaces a)))))))
                ''doc-workspace-1-1'')
            = Some [''workspace-1''])"
  using vanilla_fetch_sets_fixture [of r] atom_fetch_sets_fixture [of a]
    fixture_documents_shape
    vanilla_fetch_keeps_others [OF assms(1), of r] atom_fetch_keeps_others [OF assms(1), of a]
    vanilla_membership_added [OF assms(2), of r] vanilla_membership_discarded [of w r]
    atom_membership_added [OF assms(2), of a] atom_membership_discarded [of w a]
  by blast

theorem fetch_overwrites_fixture_documents_witness:
  "''doc-9'' \<notin> set [''doc-workspace-1-1'', ''doc-workspace-1-2'', ''doc-workspace-2-1'',
                      ''doc-workspace-3-1'', ''doc-workspace-3-2'']
   \<and> ''workspace-2'' \<noteq> ''workspace-1''
   \<and> documents
        (store (vanilla_fetchWorkspaces
                  (snd (vanilla_createDocument ''doc-9'' ''p'' (start initialRootState)))))
        ''doc-9''
       = documents (store (snd (vanilla_createDocument ''doc-9'' ''p'' (start initialRootState))))
           ''doc-9''
   \<and> map_option doc_workspaceIds
        (documents
           (store (vanilla_fetchWorkspaces
                     (snd (vanilla_dispatch
                        (vanilla_addDocumentToWorkspace ''doc-workspace-1-1'' ''workspace-2'')
                        (vanilla_fetchWorkspaces
                           (snd (vanilla_createDocument ''doc-9'' ''p'' (start initialRootState))))))))
           ''doc-workspace-1-1'')
       = Some [''workspace-1'']"
proof -
  have k: "''doc-9'' \<notin> set [''doc-workspace-1-1'', ''doc-workspace-1-2'', ''doc-workspace-2-1'',
                             ''doc-workspace-3-1'', ''doc-workspace-3-2'']"
    by simp
  have w: "''workspace-2'' \<noteq> ''workspace-1''"
    by simp
  show ?thesis
    using k w
      fetch_overwrites_fixture_documents [OF k w,
        of "snd (vanilla_createDocument ''doc-9'' ''p'' (start initialRootState))"]
    by blast
qed

subsection \<open>No workspace id is listed twice\<close>


lemma no_dup_upd:
  "no_duplicate_workspaceIds docs \<Longrightarrow> distinct (doc_workspaceIds doc)
   \<Longrightarrow> no_duplicate_workspaceIds (docs(k \<mapsto> doc))"
  by (simp add: no_duplicate_workspaceIds_def)

lemma no_dup_fetch:
  "no_duplicate_workspaceIds docs \<Longrightarrow>
   no_duplicate_workspaceIds
     (foldl (\<lambda>docs doc. docs(doc_id doc \<mapsto> doc)) docs
        (concat (map embedded_documents atom_workspaces)))"
  by (simp add: atom_workspaces_def embedded_documents_def no_dup_upd)

lemma no_dup_attach:
  "no_duplicate_workspaceIds docs \<Longrightarrow>
   no_duplicate_workspaceIds
     (case docs d of
        None \<Rightarrow> docs
      | Some doc \<Rightarrow>
          if w \<in> set (doc_workspaceIds doc) then docs
          else docs(doc_id doc \<mapsto> doc\<lparr>doc_workspaceIds := doc_workspaceIds doc @ [w]\<rparr>))"
  by (auto simp: no_duplicate_workspaceIds_def split: option.splits if_splits)

lemma no_dup_attach_at:
  "no_duplicate_workspaceIds docs \<Longrightarrow>
   no_duplicate_workspaceIds
     (case docs d of
        None \<Rightarrow> docs
      | Some doc \<Rightarrow>
          if w \<in> set (doc_workspaceIds doc) then docs
          else docs(d \<mapsto> doc\<lparr>doc_workspaceIds := doc_workspaceIds doc @ [w]\<rparr>))"
  by (auto simp: no_duplicate_workspaceIds_def split: option.splits if_splits)

text \<open>The documents each operation leaves, in terms of the documents it found.\<close>

lemma vanilla_create_documents:
  "documents (store (snd (vanilla_createDocument d p r))) =
     (documents (store r))(d \<mapsto>
        \<lparr>doc_id = d, doc_path = ''C:/Users/trey/'' @ d, doc_title = ''New Document'',
         doc_pages = [\<lparr>page_id = p, page_title = ''New Page'', page_content = ''''\<rparr>],
         doc_workspaceIds = []\<rparr>)"
  by (simp add: vanilla_defs run_defs)

lemma vanilla_attach_documents:
  "documents (store (snd (vanilla_dispatch (vanilla_addDocumentToWorkspace d w) r))) =
     (case documents (store r) d of
        None \<Rightarrow> documents (store r)
      | Some doc \<Rightarrow>
          if w \<in> set (doc_workspaceIds doc) then documents (store r)
          else (documents (store r))(doc_id doc \<mapsto>
                 doc\<lparr>doc_workspaceIds := doc_workspaceIds doc @ [w]\<rparr>))"
  by (simp add: vanilla_defs run_defs split: option.splits)

lemma thunks_create_documents:
  "documents (store (snd (thunks_createDocument d x p r))) =
     (documents (store r))(d \<mapsto>
        \<lparr>doc_id = d, doc_path = ''C:/Users/trey/'' @ d, doc_title = ''New Document'',
         doc_pages = [\<lparr>page_id = p, page_title = ''New Page'', page_content = ''''\<rparr>],
         doc_workspaceIds = []\<rparr>)"
  by (simp add: thunks_defs run_defs)

lemma thunks_fetch_documents:
  "documents (store (snd (thunks_fetchWorkspaces r))) =
     foldl (\<lambda>docs doc. docs(doc_id doc \<mapsto> doc)) (documents (store r))
       (concat (map embedded_documents atom_workspaces))"
  by (simp add: thunks_fetchWorkspaces_def thunks_workspaces_def atom_workspaces_def
        embedded_documents_def createAsyncThunk_def thunks_dispatch_def
        thunks_rootReducer_def run_defs)

lemma thunks_attach_documents:
  "documents (store (snd (thunks_dispatch (AddDocumentToWorkspace d w) r))) =
     (case documents (store r) d of
        None \<Rightarrow> documents (store r)
      | Some doc \<Rightarrow>
          if w \<in> set (doc_workspaceIds doc) then documents (store r)
          else (documents (store r))(d \<mapsto>
                 doc\<lparr>doc_workspaceIds := doc_workspaceIds doc @ [w]\<rparr>))"
  by (simp add: thunks_dispatch_def rtk_dispatch_def thunks_rootReducer_def
        split: option.splits)

lemma atom_create_documents:
  "documents (store (snd (atom_createDocument d p r))) =
     (documents (store r))(d \<mapsto>
        \<lparr>doc_id = d, doc_path = ''C:/Users/trey/'' @ d, doc_title = ''New Document'',
         doc_pages = [\<lparr>page_id = p, page_title = ''New Page'', page_content = ''''\<rparr>],
         doc_workspaceIds = []\<rparr>)"
  by (simp add: atom_defs run_defs)

lemma atom_attach_documents:
  "documents (store (snd (atom_addDocumentToWorkspace d w r))) =
     (case documents (store r) d of
        None \<Rightarrow> documents (store r)
      | Some doc \<Rightarrow>
          if w \<in> set (doc_workspaceIds doc) then documents (store r)
          else (documents (store r))(d \<mapsto>
                 doc\<lparr>doc_workspaceIds := doc_workspaceIds doc @ [w]\<rparr>))"
  by (simp add: atom_defs run_defs split: option.splits)

lemma zustand_create_documents:
  "documents (store (zustand_createDocument d p r)) =
     (documents (store r))(d \<mapsto>
        \<lparr>doc_id = d, doc_path = ''C:/Users/trey/'' @ d, doc_title = ''New Document'',
         doc_pages = [\<lparr>page_id = p, page_title = ''New Page'', page_content = ''''\<rparr>],
         doc_workspaceIds = []\<rparr>)"
  by (simp add: zustand_defs run_defs)

lemma zustand_fetch_documents:
  "documents (store (zustand_fetchWorkspaces r)) =
     foldl (\<lambda>docs doc. docs(doc_id doc \<mapsto> doc)) (documents (store r))
       (concat (map embedded_documents atom_workspaces))"
  by (simp add: zustand_fetchWorkspaces_def zustand_workspaces_def atom_workspaces_def
        embedded_documents_def zustand_addDocument_def run_defs)

lemma zustand_attach_documents:
  "documents (store (zustand_addDocumentToWorkspace d w r)) =
     (case documents (store r) d of
        None \<Rightarrow> documents (store r)
      | Some doc \<Rightarrow>
          if w \<in> set (doc_workspaceIds doc) then documents (store r)
          else (documents (store r))(d \<mapsto>
                 doc\<lparr>doc_workspaceIds := doc_workspaceIds doc @ [w]\<rparr>))"
  by (simp add: zustand_defs run_defs split: option.splits)

lemma keystone_create_heap:
  "heap (store (keystone_createDocument d p r)) =
     (heap (store r))(next_ref (store r) \<mapsto>
        \<lparr>doc_id = d, doc_path = ''C:/Users/trey/'' @ d, doc_title = ''New Document'',
         doc_pages = [\<lparr>page_id = p, page_title = ''New Page'', page_content = ''''\<rparr>],
         doc_workspaceIds = []\<rparr>)"
  by (simp add: keystone_defs run_defs)

lemma keystone_fetch_heap:
  "heap (store (keystone_fetchWorkspaces r)) =
     (heap (store r))
       (next_ref (store r) \<mapsto> concat (map embedded_documents atom_workspaces) ! 0,
        Suc (next_ref (store r)) \<mapsto> concat (map embedded_documents atom_workspaces) ! 1,
        Suc (Suc (next_ref (store r))) \<mapsto>
          concat (map embedded_documents atom_workspaces) ! 2,
        Suc (Suc (Suc (next_ref (store r)))) \<mapsto>
          concat (map embedded_documents atom_workspaces) ! 3,
        Suc (Suc (Suc (Suc (next_ref (store r))))) \<mapsto>
          concat (map embedded_documents atom_workspaces) ! 4)"
  by (simp add: keystone_fetchWorkspaces_def keystone_fetchWorkspacesFromDB_def
        atom_workspaces_def embedded_documents_def new_Document_def
        DocumentsStore_addDocument_def run_defs)

text \<open>Every operation keeps the invariant.\<close>

lemma vanilla_preserves_run:
  assumes "no_duplicate_workspaceIds (documents (store r))"
  shows "no_duplicate_workspaceIds (documents (store (snd (vanilla_createDocument d p r))))
       \<and> no_duplicate_workspaceIds (documents (store (vanilla_fetchWorkspaces r)))
       \<and> no_duplicate_workspaceIds
           (documents (store (snd (vanilla_dispatch (vanilla_addDocumentToWorkspace d w) r))))"
  unfolding vanilla_create_documents vanilla_fetch_documents vanilla_attach_documents
  using assms by (simp add: no_dup_upd no_dup_fetch no_dup_attach no_dup_attach_at)

lemma vanilla_preserves:
  assumes "no_duplicate_workspaceIds (documents s)"
  shows "no_duplicate_workspaceIds (documents (store (snd (vanilla_createDocument d p (start s)))))
       \<and> no_duplicate_workspaceIds (documents (store (vanilla_fetchWorkspaces (start s))))
       \<and> no_duplicate_workspaceIds
           (documents (store (snd (vanilla_dispatch (vanilla_addDocumentToWorkspace d w) (start s)))))"
  using assms vanilla_preserves_run [of "start s"] by (simp add: start_def)

lemma thunks_preserves_run:
  assumes "no_duplicate_workspaceIds (documents (store r))"
  shows "no_duplicate_workspaceIds
           (documents (store (snd (thunks_createDocument d x p r))))
       \<and> no_duplicate_workspaceIds (documents (store (snd (thunks_fetchWorkspaces r))))
       \<and> no_duplicate_workspaceIds
           (documents (store (snd (thunks_dispatch (AddDocumentToWorkspace d w) r))))"
  unfolding thunks_create_documents thunks_fetch_documents thunks_attach_documents
  using assms by (simp add: no_dup_upd no_dup_fetch no_dup_attach no_dup_attach_at)

lemma thunks_preserves:
  assumes "no_duplicate_workspaceIds (documents s)"
  shows "no_duplicate_workspaceIds
           (documents (store (snd (thunks_createDocument d x p (start s)))))
       \<and> no_duplicate_workspaceIds (documents (store (snd (thunks_fetchWorkspaces (start s)))))
       \<and> no_duplicate_workspaceIds
           (documents (store (snd (thunks_dispatch (AddDocumentToWorkspace d w) (start s)))))"
  using assms thunks_preserves_run [of "start s"] by (simp add: start_def)

lemma atom_preserves_run:
  assumes "no_duplicate_workspaceIds (documents (store r))"
  shows "no_duplicate_workspaceIds (documents (store (snd (atom_createDocument d p r))))
       \<and> no_duplicate_workspaceIds (documents (store (snd (atom_fetchWorkspaces r))))
       \<and> no_duplicate_workspaceIds
           (documents (store (snd (atom_addDocumentToWorkspace d w r))))"
  unfolding atom_create_documents atom_fetch_documents atom_attach_documents
  using assms by (simp add: no_dup_upd no_dup_fetch no_dup_attach no_dup_attach_at)

lemma atom_preserves:
  assumes "no_duplicate_workspaceIds (documents s)"
  shows "no_duplicate_workspaceIds (documents (store (snd (atom_createDocument d p (start s)))))
       \<and> no_duplicate_workspaceIds (documents (store (snd (atom_fetchWorkspaces (start s)))))
       \<and> no_duplicate_workspaceIds
           (documents (store (snd (atom_addDocumentToWorkspace d w (start s)))))"
  using assms atom_preserves_run [of "start s"] by (simp add: start_def)

lemma zustand_preserves_run:
  assumes "no_duplicate_workspaceIds (documents (store r))"
  shows "no_duplicate_workspaceIds (documents (store (zustand_createDocument d p r)))
       \<and> no_duplicate_workspaceIds (documents (store (zustand_fetchWorkspaces r)))
       \<and> no_duplicate_workspaceIds
           (documents (store (zustand_addDocumentToWorkspace d w r)))"
  unfolding zustand_create_documents zustand_fetch_documents zustand_attach_documents
  using assms by (simp add: no_dup_upd no_dup_fetch no_dup_attach no_dup_attach_at)

lemma zustand_preserves:
  assumes "no_duplicate_workspaceIds (documents s)"
  shows "no_duplicate_workspaceIds (documents (store (zustand_createDocument d p (start s))))
       \<and> no_duplicate_workspaceIds (documents (store (zustand_fetchWorkspaces (start s))))
       \<and> no_duplicate_workspaceIds
           (documents (store (zustand_addDocumentToWorkspace d w (start s))))"
  using assms zustand_preserves_run [of "start s"] by (simp add: start_def)

lemma keystone_attach_heap_no_dup:
  "no_duplicate_workspaceIds (heap (store r)) \<Longrightarrow>
   no_duplicate_workspaceIds (heap (store (keystone_handleAddToWorkspace d w r)))"
  by (auto simp: no_duplicate_workspaceIds_def keystone_handleAddToWorkspace_def
        Document_addToWorkspace_def getDocument_def mutate_def Let_def
        split: option.splits if_splits)

lemma keystone_preserves:
  assumes "no_duplicate_workspaceIds (heap s)"
  shows "no_duplicate_workspaceIds (heap (store (keystone_createDocument d p (start s))))
       \<and> no_duplicate_workspaceIds (heap (store (keystone_fetchWorkspaces (start s))))
       \<and> no_duplicate_workspaceIds (heap (store (keystone_handleAddToWorkspace d w (start s))))"
proof (intro conjI)
  show "no_duplicate_workspaceIds (heap (store (keystone_createDocument d p (start s))))"
    using assms by (simp add: keystone_create_heap no_dup_upd start_def)
  show "no_duplicate_workspaceIds (heap (store (keystone_fetchWorkspaces (start s))))"
    unfolding keystone_fetch_heap using assms
    by (intro no_dup_upd) (simp_all add: start_def atom_workspaces_def embedded_documents_def)
  show "no_duplicate_workspaceIds (heap (store (keystone_handleAddToWorkspace d w (start s))))"
    using assms by (intro keystone_attach_heap_no_dup) (simp add: start_def)
qed

lemma keystone_view_no_dup:
  "no_duplicate_workspaceIds (heap s) \<Longrightarrow> no_duplicate_workspaceIds (keystone_documents s)"
  by (auto simp: no_duplicate_workspaceIds_def keystone_documents_def getDocument_def
        split: option.splits)

text \<open>So every reachable store has it.\<close>

lemma vanilla_reachable_no_dup:
  "vanilla_reachable s \<Longrightarrow> no_duplicate_workspaceIds (documents s)"
proof (induction rule: vanilla_reachable.induct)
  case vanilla_initial
  then show ?case by (simp add: no_duplicate_workspaceIds_def initialRootState_def)
qed (simp_all add: vanilla_preserves)

lemma thunks_reachable_no_dup:
  "thunks_reachable s \<Longrightarrow> no_duplicate_workspaceIds (documents s)"
proof (induction rule: thunks_reachable.induct)
  case thunks_initial
  then show ?case by (simp add: no_duplicate_workspaceIds_def initialRootState_def)
qed (simp_all add: thunks_preserves)

lemma atom_reachable_no_dup:
  "atom_reachable s \<Longrightarrow> no_duplicate_workspaceIds (documents s)"
proof (induction rule: atom_reachable.induct)
  case atom_initial
  then show ?case by (simp add: no_duplicate_workspaceIds_def initialRootState_def)
qed (simp_all add: atom_preserves)

lemma zustand_reachable_no_dup:
  "zustand_reachable s \<Longrightarrow> no_duplicate_workspaceIds (documents s)"
proof (induction rule: zustand_reachable.induct)
  case zustand_initial
  then show ?case by (simp add: no_duplicate_workspaceIds_def initialRootState_def)
qed (simp_all add: zustand_preserves)

lemma keystone_reachable_no_dup:
  "keystone_reachable s \<Longrightarrow> no_duplicate_workspaceIds (heap s)"
proof (induction rule: keystone_reachable.induct)
  case keystone_initial
  then show ?case by (simp add: no_duplicate_workspaceIds_def keystone_initialState_def)
qed (simp_all add: keystone_preserves)

text \<open>
  Claim C7. In every state reachable by any sequence of create-document, fetch-workspaces
  and add-document-to-workspace, no document lists a workspace id twice, and each of the
  three operations keeps that invariant when run on any state that has it. Stated for the
  five variants whose store has all three operations: vanilla Redux (\<open>v\<close>), Redux
  Toolkit thunks (\<open>t\<close>), Effect-Atom (\<open>a\<close>), Zustand (\<open>z\<close>) and MobX-Keystone (\<open>h\<close>),
  where the invariant covers every document instance and with it every document the
  store shows. The preservation half is about any state \<open>s\<close> (\<open>m\<close> for MobX-Keystone).
\<close>

theorem workspaceIds_never_duplicated:
  "((vanilla_reachable v \<longrightarrow> no_duplicate_workspaceIds (documents v))
    \<and> (thunks_reachable t \<longrightarrow> no_duplicate_workspaceIds (documents t))
    \<and> (atom_reachable a \<longrightarrow> no_duplicate_workspaceIds (documents a))
    \<and> (zustand_reachable z \<longrightarrow> no_duplicate_workspaceIds (documents z))
    \<and> (keystone_reachable h \<longrightarrow>
          no_duplicate_workspaceIds (heap h)
          \<and> no_duplicate_workspaceIds (keystone_documents h)))
   \<and> (no_duplicate_workspaceIds (documents s) \<longrightarrow>
         (no_duplicate_workspaceIds (documents (store (snd (vanilla_createDocument d p (start s)))))
          \<and> no_duplicate_workspaceIds (documents (store (vanilla_fetchWorkspaces (start s))))
          \<and> no_duplicate_workspaceIds
              (documents
                 (store (snd (vanilla_dispatch (vanilla_addDocumentToWorkspace d w) (start s))))))
       \<and> (no_duplicate_workspaceIds
              (documents (store (snd (thunks_createDocument d x p (start s)))))
          \<and> no_duplicate_workspaceIds
              (documents (store (snd (thunks_fetchWorkspaces (start s)))))
          \<and> no_duplicate_workspaceIds
              (documents
                 (store (snd (thunks_dispatch (AddDocumentToWorkspace d w) (start s))))))
       \<and> (no_duplicate_workspaceIds
              (documents (store (snd (atom_createDocument d p (start s)))))
          \<and> no_duplicate_workspaceIds
              (documents (store (snd (atom_fetchWorkspaces (start s)))))
          \<and> no_duplicate_workspaceIds
              (documents (store (snd (atom_addDocumentToWorkspace d w (start s))))))
       \<and> (no_duplicate_workspaceIds
              (documents (store (zustand_createDocument d p (start s))))
          \<and> no_duplicate_workspaceIds (documents (store (zustand_fetchWorkspaces (start s))))
          \<and> no_duplicate_workspaceIds
              (documents (store (zustand_addDocumentToWorkspace d w (start s))))))
   \<and> (no_duplicate_workspaceIds (heap m) \<longrightarrow>
         no_duplicate_workspaceIds (heap (store (keystone_createDocument d p (start m))))
         \<and> no_duplicate_workspaceIds (heap (store (keystone_fetchWorkspaces (start m))))
         \<and> no_duplicate_workspaceIds
             (heap (store (keystone_handleAddToWorkspace d w (start m)))))"
  using vanilla_reachable_no_dup [of v] thunks_reachable_no_dup [of t]
    atom_reachable_no_dup [of a] zustand_reachable_no_dup [of z]
    keystone_reachable_no_dup [of h] keystone_view_no_dup [of h]
    vanilla_preserves [of s d p w] thunks_preserves [of s d x p w]
    atom_preserves [of s d p w] zustand_preserves [of s d p w]
    keystone_preserves [of m d p w]
  by blast

theorem workspaceIds_never_duplicated_witness:
  "(vanilla_reachable (store (vanilla_fetchWorkspaces (start initialRootState)))
    \<and> thunks_reachable (store (snd (thunks_fetchWorkspaces (start initialRootState))))
    \<and> atom_reachable (store (snd (atom_fetchWorkspaces (start initialRootState))))
    \<and> zustand_reachable (store (zustand_fetchWorkspaces (start initialRootState)))
    \<and> keystone_reachable (store (keystone_fetchWorkspaces (start keystone_initialState))))
   \<and> (no_duplicate_workspaceIds
         (documents (store (vanilla_fetchWorkspaces (start initialRootState))))
    \<and> no_duplicate_workspaceIds
         (heap (store (keystone_fetchWorkspaces (start keystone_initialState)))))
   \<and> (no_duplicate_workspaceIds
         (documents
            (store (snd (vanilla_dispatch
                      (vanilla_addDocumentToWorkspace ''doc-workspace-1-1'' ''workspace-2'')
                      (start (store (vanilla_fetchWorkspaces (start initialRootState))))))))
    \<and> no_duplicate_workspaceIds
         (heap
            (store (keystone_handleAddToWorkspace ''doc-workspace-1-1'' ''workspace-2''
                      (start (store (keystone_fetchWorkspaces
                                       (start keystone_initialState))))))))"
proof -
  have v: "vanilla_reachable (store (vanilla_fetchWorkspaces (start initialRootState)))"
    by (intro vanilla_reachable.intros)
  have t: "thunks_reachable (store (snd (thunks_fetchWorkspaces (start initialRootState))))"
    by (intro thunks_reachable.intros)
  have a: "atom_reachable (store (snd (atom_fetchWorkspaces (start initialRootState))))"
    by (intro atom_reachable.intros)
  have z: "zustand_reachable (store (zustand_fetchWorkspaces (start initialRootState)))"
    by (intro zustand_reachable.intros)
  have h: "keystone_reachable (store (keystone_fetchWorkspaces (start keystone_initialState)))"
    by (intro keystone_reachable.intros)
  show ?thesis
    using v t a z h
      workspaceIds_never_duplicated
        [where v = "store (vanilla_fetchWorkspaces (start initialRootState))"
           and t = "store (snd (thunks_fetchWorkspaces (start initialRootState)))"
           and a = "store (snd (atom_fetchWorkspaces (start initialRootState)))"
           and z = "store (zustand_fetchWorkspaces (start initialRootState))"
           and h = "store (keystone_fetchWorkspaces (start keystone_initialState))"
           and s = "store (vanilla_fetchWorkspaces (start initialRootState))"
           and m = "store (keystone_fetchWorkspaces (start keystone_initialState))"
           and d = "''doc-workspace-1-1''" and w = "''workspace-2''"]
    by blast
qed

subsection \<open>Creating documents one after another\<close>

text \<open>
  A step that writes one made document under its own key, and keeps an invariant, can be
  folded over a list of items with distinct keys: afterwards every key holds the document
  made for it, every other key holds what it held before, and the keys present are the
  old ones and the new ones.
\<close>

lemma invoke_each_snoc:
  "invoke_each operation (items @ [i]) s = operation i (invoke_each operation items s)"
  by (simp add: invoke_each_def)

lemma invoke_each_writes:
  fixes view :: "'s \<Rightarrow> DocumentsState"
  assumes step: "\<And>s i. I s \<Longrightarrow>
                   view (operation i s) = (view s)(key i \<mapsto> made i) \<and> I (operation i s)"
      and "I s"
      and "distinct (map key items)"
  shows "I (invoke_each operation items s)
       \<and> (\<forall>i \<in> set items. view (invoke_each operation items s) (key i) = Some (made i))
       \<and> (\<forall>k. k \<notin> key ` set items \<longrightarrow> view (invoke_each operation items s) k = view s k)
       \<and> dom (view (invoke_each operation items s)) = dom (view s) \<union> key ` set items"
  using assms(3)
proof (induction items rule: rev_induct)
  case Nil
  then show ?case using assms(2) by (simp add: invoke_each_def)
next
  case (snoc i items)
  let ?s = "invoke_each operation items s"
  have IH: "I ?s"
       "\<forall>j \<in> set items. view ?s (key j) = Some (made j)"
       "\<forall>k. k \<notin> key ` set items \<longrightarrow> view ?s k = view s k"
       "dom (view ?s) = dom (view s) \<union> key ` set items"
    using snoc by simp_all
  have fresh: "key i \<notin> key ` set items"
    using snoc.prems by simp
  then have new: "\<forall>j \<in> set items. key j \<noteq> key i"
    by (metis imageI)
  have after: "view (operation i ?s) = (view ?s)(key i \<mapsto> made i)" "I (operation i ?s)"
    using step [OF IH(1)] by simp_all
  show ?case
    unfolding invoke_each_snoc
    using IH fresh new after by (auto simp: dom_def)
qed

lemma created_separatelyI:
  assumes "\<forall>i \<in> set items. after (fst i) = Some (made i)"
      and "\<forall>k. k \<notin> fst ` set items \<longrightarrow> after k = before k"
      and "\<And>i. doc_id (made i) = fst i \<and> map page_id (doc_pages (made i)) = [page i]"
  shows "created_separately before after (map (\<lambda>i. (fst i, page i)) items)"
  using assms by (auto simp: created_separately_def holds_own_page_def image_image)

lemma card_new_documents:
  assumes "dom after = fst ` set items"
      and "distinct (map fst items)"
  shows "card (dom after) = length items"
  using assms distinct_card [of "map fst items"] by simp

text \<open>One invocation writes the settled document under the new id and nothing else.\<close>

lemma vanilla_create_step:
  "documents (vanilla_create i s) = (documents s)(fst i \<mapsto> settled_document (fst i) (snd i))"
  by (simp add: vanilla_create_def settled_document_def vanilla_defs run_defs)

lemma atom_create_step:
  "documents (atom_create i s) = (documents s)(fst i \<mapsto> settled_document (fst i) (snd i))"
  by (simp add: atom_create_def settled_document_def atom_defs run_defs)

lemma thunks_create_step:
  "documents (thunks_create i s) =
     (documents s)(fst i \<mapsto> settled_document (fst i) (snd (snd i)))"
  by (simp add: thunks_create_def settled_document_def thunks_defs run_defs)

lemma sagas_create_step:
  "documents (sagas_create i s) = (documents s)(fst i \<mapsto> settled_document (fst i) (snd i))"
  by (simp add: sagas_create_def settled_document_def sagas_defs run_defs)

lemma epics_create_step:
  "documents (epics_create i s) = (documents s)(fst i \<mapsto> settled_document (fst i) (snd i))"
  by (simp add: epics_create_def settled_document_def epics_defs run_defs)

lemma zustand_create_step:
  "documents (zustand_create i s) = (documents s)(fst i \<mapsto> settled_document (fst i) (snd i))"
  by (simp add: zustand_create_def settled_document_def zustand_defs run_defs)

lemma keystone_create_step:
  assumes "fresh_allocator s"
  shows "keystone_documents (keystone_create i s)
           = (keystone_documents s)(fst i \<mapsto> settled_document (fst i) (snd i))
         \<and> fresh_allocator (keystone_create i s)"
proof
  have stored: "\<And>k r. ks_documents s k = Some r \<Longrightarrow> r \<noteq> next_ref s"
    using assms by (force simp: fresh_allocator_def)
  show "keystone_documents (keystone_create i s)
          = (keystone_documents s)(fst i \<mapsto> settled_document (fst i) (snd i))"
    by (rule ext)
       (auto simp: keystone_create_def settled_document_def keystone_defs run_defs
          dest: stored split: option.splits)
  show "fresh_allocator (keystone_create i s)"
    using assms
    by (auto simp: fresh_allocator_def keystone_create_def keystone_defs run_defs
          less_Suc_eq split: if_splits)
qed

text \<open>Every reachable MobX-Keystone store has a sound allocator.\<close>

lemma keystone_reachable_fresh:
  "keystone_reachable s \<Longrightarrow> fresh_allocator s"
proof (induction rule: keystone_reachable.induct)
  case keystone_initial
  then show ?case by (simp add: fresh_allocator_def keystone_initialState_def)
next
  case (keystone_create s d p)
  then show ?case
    using keystone_create_step [of s "(d, p)"] by (simp add: keystone_create_def)
next
  case (keystone_fetch s)
  then have old: "\<And>k r. ks_documents s k = Some r \<Longrightarrow>
                    r < Suc (Suc (Suc (Suc (Suc (next_ref s)))))"
    by (force simp: fresh_allocator_def intro: less_SucI)
  show ?case
    by (auto simp: fresh_allocator_def keystone_fetchWorkspaces_def
          keystone_fetchWorkspacesFromDB_def embedded_documents_def new_Document_def
          DocumentsStore_addDocument_def run_defs dest: old split: if_splits)
next
  case (keystone_attach s d w)
  then show ?case
    by (auto simp: fresh_allocator_def keystone_defs run_defs split: option.splits if_splits)
qed

lemma settled_document_own_page:
  "doc_id (settled_document d p) = d \<and> map page_id (doc_pages (settled_document d p)) = [p]"
  by (simp add: settled_document_def)

text \<open>Folding one variant's step over identifiers with distinct document ids.\<close>

lemma create_many:
  fixes view :: "'s \<Rightarrow> DocumentsState" and ids :: "(string \<times> string) list"
  assumes "\<And>s i. I s \<Longrightarrow>
             view (operation i s) = (view s)(fst i \<mapsto> settled_document (fst i) (snd i))
             \<and> I (operation i s)"
      and "I s" and "distinct (map fst ids)"
  shows "created_separately (view s) (view (invoke_each operation ids s)) ids
       \<and> dom (view (invoke_each operation ids s)) = dom (view s) \<union> fst ` set ids"
  using invoke_each_writes [of I view operation fst "\<lambda>i. settled_document (fst i) (snd i)",
          OF assms]
  by (auto simp: created_separately_def holds_own_page_def settled_document_def)

lemma thunks_create_many:
  assumes "distinct (map fst ids3)"
  shows "created_separately (documents s) (documents (invoke_each thunks_create ids3 s))
           (map (\<lambda>i. (fst i, snd (snd i))) ids3)
       \<and> dom (documents (invoke_each thunks_create ids3 s))
           = dom (documents s) \<union> fst ` set ids3"
  using invoke_each_writes [of "\<lambda>s. True" documents thunks_create fst
          "\<lambda>i. settled_document (fst i) (snd (snd i))" s ids3] assms
  by (auto simp: thunks_create_step created_separately_def holds_own_page_def
        settled_document_def image_image)

text \<open>
  Claim C8. For every list of drawn identifiers whose document ids are pairwise distinct
  (\<open>ids\<close>, and \<open>ids3\<close> with the page-directory id for the thunk variant), invoking
  create-document once per entry, starting from any store, leaves every created document
  in the state with a page list of exactly its own page, and leaves every other id as it
  was: no invocation touches a document of another invocation. Starting from the empty
  initial store the state then holds exactly as many documents as there were
  invocations. The starting store \<open>s\<close> is arbitrary; for MobX-Keystone, whose store
  holds references, the starting store \<open>h\<close> is any reachable one.
\<close>

theorem create_many_documents:
  assumes "distinct (map fst ids)" and "distinct (map fst ids3)" and "keystone_reachable h"
  shows "(created_separately (documents s) (documents (invoke_each vanilla_create ids s)) ids
          \<and> card (dom (documents (invoke_each vanilla_create ids initialRootState)))
              = length ids)
       \<and> (created_separately (documents s) (documents (invoke_each atom_create ids s)) ids
          \<and> card (dom (documents (invoke_each atom_create ids initialRootState)))
              = length ids)
       \<and> (created_separately (documents s) (documents (invoke_each thunks_create ids3 s))
             (map (\<lambda>i. (fst i, snd (snd i))) ids3)
          \<and> card (dom (documents (invoke_each thunks_create ids3 initialRootState)))
              = length ids3)
       \<and> (created_separately (documents s) (documents (invoke_each sagas_create ids s)) ids
          \<and> card (dom (documents (invoke_each sagas_create ids initialRootState)))
              = length ids)
       \<and> (created_separately (documents s) (documents (invoke_each epics_create ids s)) ids
          \<and> card (dom (documents (invoke_each epics_create ids initialRootState)))
              = length ids)
       \<and> (created_separately (documents s) (documents (invoke_each zustand_create ids s)) ids
          \<and> card (dom (documents (invoke_each zustand_create ids initialRootState)))
              = length ids)
       \<and> (created_separately (keystone_documents h)
             (keystone_documents (invoke_each keystone_create ids h)) ids
          \<and> card (dom (keystone_documents
                         (invoke_each keystone_create ids keystone_initialState)))
              = length ids)"
proof -
  have empty: "dom (documents initialRootState) = {}"
    by (simp add: initialRootState_def)
  have kempty: "dom (keystone_documents keystone_initialState) = {}"
       "fresh_allocator keystone_initialState"
    by (auto simp: keystone_initialState_def keystone_documents_def getDocument_def
          fresh_allocator_def)
  note n = distinct_card [of "map fst ids"] distinct_card [of "map fst ids3"]
  have vanilla:
    "created_separately (documents s) (documents (invoke_each vanilla_create ids s)) ids
     \<and> card (dom (documents (invoke_each vanilla_create ids initialRootState))) = length ids"
    using create_many [of "\<lambda>s. True" documents vanilla_create _ ids] assms(1) n empty
    by (simp add: vanilla_create_step)
  have atom:
    "created_separately (documents s) (documents (invoke_each atom_create ids s)) ids
     \<and> card (dom (documents (invoke_each atom_create ids initialRootState))) = length ids"
    using create_many [of "\<lambda>s. True" documents atom_create _ ids] assms(1) n empty
    by (simp add: atom_create_step)
  have thunks:
    "created_separately (documents s) (documents (invoke_each thunks_create ids3 s))
       (map (\<lambda>i. (fst i, snd (snd i))) ids3)
     \<and> card (dom (documents (invoke_each thunks_create ids3 initialRootState))) = length ids3"
    using thunks_create_many [OF assms(2)] assms(2) n empty by simp
  have sagas:
    "created_separately (documents s) (documents (invoke_each sagas_create ids s)) ids
     \<and> card (dom (documents (invoke_each sagas_create ids initialRootState))) = length ids"
    using create_many [of "\<lambda>s. True" documents sagas_create _ ids] assms(1) n empty
    by (simp add: sagas_create_step)
  have epics:
    "created_separately (documents s) (documents (invoke_each epics_create ids s)) ids
     \<and> card (dom (documents (invoke_each epics_create ids initialRootState))) = length ids"
    using create_many [of "\<lambda>s. True" documents epics_create _ ids] assms(1) n empty
    by (simp add: epics_create_step)
  have zustand:
    "created_separately (documents s) (documents (invoke_each zustand_create ids s)) ids
     \<and> card (dom (documents (invoke_each zustand_create ids initialRootState))) = length ids"
    using create_many [of "\<lambda>s. True" documents zustand_create _ ids] assms(1) n empty
    by (simp add: zustand_create_step)
  have keystone:
    "created_separately (keystone_documents h)
       (keystone_documents (invoke_each keystone_create ids h)) ids
     \<and> card (dom (keystone_documents (invoke_each keystone_create ids keystone_initialState)))
         = length ids"
    using create_many [of fresh_allocator keystone_documents keystone_create h ids]
      create_many [of fresh_allocator keystone_documents keystone_create
        keystone_initialState ids]
      assms(1) keystone_reachable_fresh [OF assms(3)] n kempty
    by (simp add: keystone_create_step)
  show ?thesis
    using vanilla atom thunks sagas epics zustand keystone by blast
qed

theorem create_many_documents_witness:
  "distinct (map fst [(''a'', ''p''), (''b'', ''q'')])
   \<and> distinct (map fst [(''a'', ''x'', ''p''), (''b'', ''y'', ''q'')])
   \<and> keystone_reachable (store (keystone_fetchWorkspaces (start keystone_initialState)))
   \<and> card (dom (documents
        (invoke_each vanilla_create [(''a'', ''p''), (''b'', ''q'')] initialRootState))) = 2
   \<and> created_separately (documents initialRootState)
        (documents (invoke_each vanilla_create [(''a'', ''p''), (''b'', ''q'')] initialRootState))
        [(''a'', ''p''), (''b'', ''q'')]"
proof -
  have ids: "distinct (map fst [(''a'', ''p''), (''b'', ''q'')])"
    by simp
  have ids3: "distinct (map fst [(''a'', ''x'', ''p''), (''b'', ''y'', ''q'')])"
    by simp
  have h: "keystone_reachable (store (keystone_fetchWorkspaces (start keystone_initialState)))"
    by (intro keystone_reachable.intros)
  show ?thesis
    using ids ids3 h create_many_documents [OF ids ids3 h, of initialRootState]
    by simp
qed

subsection \<open>Which variants can attach a document to a workspace\<close>

text \<open>In the five variants whose store has the operation, attaching an existing document
  to a workspace leaves the workspace id among the document's \<^verbatim>\<open>workspaceIds\<close>.\<close>

lemma attach_records_workspace:
  assumes "documents s d = Some doc" and "doc_id doc = d"
  shows "\<exists>doc'. documents
                   (store (snd (vanilla_dispatch (vanilla_addDocumentToWorkspace d w) (start s)))) d
                  = Some doc' \<and> w \<in> set (doc_workspaceIds doc')"
    and "\<exists>doc'. documents (store (snd (thunks_dispatch (AddDocumentToWorkspace d w) (start s)))) d
                  = Some doc' \<and> w \<in> set (doc_workspaceIds doc')"
    and "\<exists>doc'. documents (store (snd (atom_addDocumentToWorkspace d w (start s)))) d
                  = Some doc' \<and> w \<in> set (doc_workspaceIds doc')"
    and "\<exists>doc'. documents (store (zustand_addDocumentToWorkspace d w (start s))) d
                  = Some doc' \<and> w \<in> set (doc_workspaceIds doc')"
  using assms
  by (simp_all add: vanilla_attach_documents
        thunks_attach_documents atom_attach_documents zustand_attach_documents start_def)

lemma keystone_attach_records_workspace:
  assumes "keystone_documents h d = Some doc"
  shows "\<exists>doc'. keystone_documents (store (keystone_handleAddToWorkspace d w (start h))) d
                  = Some doc' \<and> w \<in> set (doc_workspaceIds doc')"
  using assms
  by (auto simp: keystone_defs run_defs split: option.splits)

text \<open>
  Claim C3 says that every variant's document store offers an operation that records a
  workspace id in an existing document's \<^verbatim>\<open>workspaceIds\<close>. The documents slice shared by
  the Redux-Saga and the Redux-Observable variant has no case reducer for it, although
  both routes import \<^verbatim>\<open>addDocumentToWorkspace\<close> from that slice and dispatch it. Run on a
  store that holds the document \<^verbatim>\<open>doc-1\<close>, the action the thunk slice answers by
  recording \<^verbatim>\<open>workspace-1\<close> leaves the saga store and the observable store exactly as
  they were, with the document's \<^verbatim>\<open>workspaceIds\<close> still empty.
\<close>

theorem sagas_slice_ignores_addDocumentToWorkspace:
  "action_type (AddDocumentToWorkspace ''doc-1'' ''workspace-1'')
     = ''documents/addDocumentToWorkspace''
   \<and> (store (snd (put (AddDocumentToWorkspace ''doc-1'' ''workspace-1'')
                  (createDocumentSaga ''doc-1'' ''page-1'' (start initialRootState))))
      = store (createDocumentSaga ''doc-1'' ''page-1'' (start initialRootState))
    \<and> map_option doc_workspaceIds
        (documents
           (store (snd (put (AddDocumentToWorkspace ''doc-1'' ''workspace-1'')
                          (createDocumentSaga ''doc-1'' ''page-1'' (start initialRootState)))))
           ''doc-1'')
      = Some [])
   \<and> (store (snd (emit (AddDocumentToWorkspace ''doc-1'' ''workspace-1'')
                  (snd (createPageEpic ''doc-1'' ''page-1'' (start initialRootState)))))
      = store (snd (createPageEpic ''doc-1'' ''page-1'' (start initialRootState)))
    \<and> map_option doc_workspaceIds
        (documents
           (store (snd (emit (AddDocumentToWorkspace ''doc-1'' ''workspace-1'')
                          (snd (createPageEpic ''doc-1'' ''page-1'' (start initialRootState))))))
           ''doc-1'')
      = Some [])
   \<and> map_option doc_workspaceIds
        (documents
           (store (snd (thunks_dispatch (AddDocumentToWorkspace ''doc-1'' ''workspace-1'')
                          (snd (thunks_createDocument ''doc-1'' ''dir-1'' ''page-1''
                                  (start initialRootState))))))
           ''doc-1'')
      = Some [''workspace-1'']"
  by (simp add: sagas_defs epics_defs thunks_defs run_defs initialRootState_def)

subsection \<open>The workspaces fixture\<close>

text \<open>What each variant's fetch leaves among the workspaces of its store. The Effect-Atom
  service and the Zustand store replace the collection by a record built from an empty
  one; the reducers and the MobX-Keystone store write over what they held.\<close>

lemma atom_fetch_workspaces:
  "fst (atom_fetchWorkspaces a) = Inr (spec_workspaces Map.empty)
   \<and> workspaces (store (snd (atom_fetchWorkspaces a))) = spec_workspaces Map.empty"
  by (simp add: atom_fetchWorkspaces_def atom_workspacesRecord_def atom_workspaces_def
        spec_workspaces_def run_defs)

lemma zustand_fetch_workspaces:
  "workspaces (store (zustand_fetchWorkspaces z)) = spec_workspaces Map.empty"
  by (simp add: zustand_fetchWorkspaces_def store_workspaces_def zustand_workspaces_def
        spec_workspaces_def run_defs)

lemma vanilla_fetch_workspaces:
  "workspaces (store (vanilla_fetchWorkspaces r)) = spec_workspaces (workspaces (store r))"
  by (simp add: vanilla_fetchWorkspaces_def vanilla_fetchWorkspacesData_def
        embedded_documents_def spec_workspaces_def vanilla_defs run_defs)

lemma thunks_fetch_workspaces:
  "fst (thunks_fetchWorkspaces t) = Inr atom_workspaces
   \<and> workspaces (store (snd (thunks_fetchWorkspaces t))) = spec_workspaces (workspaces (store t))"
  by (simp add: thunks_fetchWorkspaces_def thunks_workspaces_def atom_workspaces_def
        store_workspaces_def embedded_documents_def spec_workspaces_def createAsyncThunk_def
        thunks_dispatch_def thunks_rootReducer_def run_defs)

lemma epics_fetch_workspaces:
  "workspaces (store (snd (fetchWorkspacesEpic t))) = spec_workspaces (workspaces (store t))"
  by (simp add: fetchWorkspacesEpic_def epics_fetchWorkspaces_def
        store_workspaces_def embedded_documents_def spec_workspaces_def emit_def
        observables_rootReducer_def run_defs)

lemma keystone_fetch_workspaces:
  "ks_workspaces (store (keystone_fetchWorkspaces k)) = spec_workspaces (ks_workspaces (store k))"
  by (simp add: keystone_fetchWorkspaces_def keystone_fetchWorkspacesFromDB_def
        embedded_documents_def spec_workspaces_def new_Document_def
        DocumentsStore_addDocument_def run_defs)

lemma sagas_fetch_puts_fixture:
  "Dispatched (SetWorkspaces atom_workspaces) (store (fetchWorkspacesSaga t))
     \<in> set (trace (fetchWorkspacesSaga t))"
  by (simp add: fetchWorkspacesSaga_def fetchWorkspacesFromDB_def atom_workspaces_def
        embedded_documents_def put_def sagas_rootReducer_def run_defs)

lemma spec_workspaces_dom:
  "dom (spec_workspaces Map.empty) = {''workspace-1'', ''workspace-2'', ''workspace-3''}"
  by (auto simp: spec_workspaces_def)

text \<open>The five embedded documents as each variant's fetch leaves them in its documents.\<close>

lemma thunks_fetch_sets_fixture:
  "map (documents (store (snd (thunks_fetchWorkspaces t))))
     [''doc-workspace-1-1'', ''doc-workspace-1-2'', ''doc-workspace-2-1'',
      ''doc-workspace-3-1'', ''doc-workspace-3-2'']
   = map Some (concat (map embedded_documents atom_workspaces))"
  by (simp add: thunks_fetch_documents atom_workspaces_def embedded_documents_def)

lemma zustand_fetch_sets_fixture:
  "map (documents (store (zustand_fetchWorkspaces z)))
     [''doc-workspace-1-1'', ''doc-workspace-1-2'', ''doc-workspace-2-1'',
      ''doc-workspace-3-1'', ''doc-workspace-3-2'']
   = map Some (concat (map embedded_documents atom_workspaces))"
  by (simp add: zustand_fetch_documents atom_workspaces_def embedded_documents_def)

lemma sagas_fetch_sets_fixture:
  "map (documents (store (fetchWorkspacesSaga t)))
     [''doc-workspace-1-1'', ''doc-workspace-1-2'', ''doc-workspace-2-1'',
      ''doc-workspace-3-1'', ''doc-workspace-3-2'']
   = map Some (concat (map embedded_documents atom_workspaces))"
  by (simp add: fetchWorkspacesSaga_def fetchWorkspacesFromDB_def atom_workspaces_def
        embedded_documents_def put_def sagas_rootReducer_def run_defs)

lemma epics_fetch_sets_fixture:
  "map (documents (store (snd (fetchWorkspacesEpic t))))
     [''doc-workspace-1-1'', ''doc-workspace-1-2'', ''doc-workspace-2-1'',
      ''doc-workspace-3-1'', ''doc-workspace-3-2'']
   = map Some (concat (map embedded_documents atom_workspaces))"
  by (simp add: fetchWorkspacesEpic_def epics_fetchWorkspaces_def atom_workspaces_def
        embedded_documents_def emit_def observables_rootReducer_def run_defs)

lemma keystone_fetch_sets_fixture:
  "map (keystone_documents (store (keystone_fetchWorkspaces k)))
     [''doc-workspace-1-1'', ''doc-workspace-1-2'', ''doc-workspace-2-1'',
      ''doc-workspace-3-1'', ''doc-workspace-3-2'']
   = map Some (concat (map embedded_documents atom_workspaces))"
  by (simp add: keystone_fetchWorkspaces_def keystone_fetchWorkspacesFromDB_def
        atom_workspaces_def embedded_documents_def new_Document_def
        DocumentsStore_addDocument_def keystone_documents_def getDocument_def run_defs)

lemma fixtures_agree:
  "vanilla_fetchWorkspacesData = Inr atom_workspaces
   \<and> fst (thunks_fetchWorkspaces t) = Inr atom_workspaces
   \<and> fetchWorkspacesFromDB = Inr atom_workspaces
   \<and> epics_fetchWorkspaces = Inr atom_workspaces
   \<and> zustand_workspaces = atom_workspaces
   \<and> keystone_fetchWorkspacesFromDB = Inr atom_workspaces
   \<and> fst (atom_fetchWorkspaces a) = Inr (atom_workspacesRecord atom_workspaces)"
  by (simp add: vanilla_fetchWorkspacesData_def atom_workspaces_def thunks_fetchWorkspaces_def
        fetchWorkspacesFromDB_def epics_fetchWorkspaces_def zustand_workspaces_def
        keystone_fetchWorkspacesFromDB_def thunks_workspaces_def embedded_documents_def
        createAsyncThunk_def thunks_dispatch_def thunks_rootReducer_def
        atom_fetchWorkspaces_def run_defs)

lemma fixture_shape:
  "length atom_workspaces = 3
   \<and> map ws_id atom_workspaces = [''workspace-1'', ''workspace-2'', ''workspace-3'']
   \<and> map ws_name atom_workspaces = [''Personal Projects'', ''Work Documents'', ''Research'']
   \<and> map (\<lambda>w. length (embedded_documents w)) atom_workspaces = [2, 1, 2]
   \<and> length (concat (map embedded_documents atom_workspaces)) = 5"
  by (simp add: atom_workspaces_def embedded_documents_def)

text \<open>
  Claim C6. In every variant the fetch-workspaces operation yields the same fixture on
  every call, whatever the run it starts from: three workspaces with the ids
  \<^verbatim>\<open>workspace-1\<close>, \<^verbatim>\<open>workspace-2\<close>, \<^verbatim>\<open>workspace-3\<close> and the names "Personal Projects",
  "Work Documents", "Research", which carry two, one and two embedded documents, five in
  all.

  The first group of conjuncts says that the seven fetched lists are one list, the second
  what that list is. The third says what the operation hands on: the Effect-Atom effect
  returns, and stores, exactly the record of the three workspaces by id; the Zustand
  action, which returns nothing, leaves exactly that record in its store; the vanilla
  thunk, the async thunk (whose payload is the fetched list), the epic and the
  MobX-Keystone action write the three workspaces over the workspaces they held; the saga
  puts \<^verbatim>\<open>setWorkspaces\<close> with the fetched list. The fourth says that afterwards each
  variant's documents hold the five embedded documents under their ids.
\<close>

theorem fetch_returns_the_fixture:
  "(vanilla_fetchWorkspacesData = Inr atom_workspaces
    \<and> fst (thunks_fetchWorkspaces t) = Inr atom_workspaces
    \<and> fetchWorkspacesFromDB = Inr atom_workspaces
    \<and> epics_fetchWorkspaces = Inr atom_workspaces
    \<and> zustand_workspaces = atom_workspaces
    \<and> keystone_fetchWorkspacesFromDB = Inr atom_workspaces
    \<and> fst (atom_fetchWorkspaces a) = Inr (atom_workspacesRecord atom_workspaces))
   \<and> (length atom_workspaces = 3
    \<and> map ws_id atom_workspaces = [''workspace-1'', ''workspace-2'', ''workspace-3'']
    \<and> map ws_name atom_workspaces = [''Personal Projects'', ''Work Documents'', ''Research'']
    \<and> map (\<lambda>w. length (embedded_documents w)) atom_workspaces = [2, 1, 2]
    \<and> length (concat (map embedded_documents atom_workspaces)) = 5)
   \<and> (fst (atom_fetchWorkspaces a) = Inr (spec_workspaces Map.empty)
    \<and> workspaces (store (snd (atom_fetchWorkspaces a))) = spec_workspaces Map.empty
    \<and> workspaces (store (zustand_fetchWorkspaces z)) = spec_workspaces Map.empty
    \<and> dom (spec_workspaces Map.empty) = {''workspace-1'', ''workspace-2'', ''workspace-3''}
    \<and> workspaces (store (vanilla_fetchWorkspaces r)) = spec_workspaces (workspaces (store r))
    \<and> workspaces (store (snd (thunks_fetchWorkspaces t)))
        = spec_workspaces (workspaces (store t))
    \<and> workspaces (store (snd (fetchWorkspacesEpic t))) = spec_workspaces (workspaces (store t))
    \<and> ks_workspaces (store (keystone_fetchWorkspaces k))
        = spec_workspaces (ks_workspaces (store k))
    \<and> Dispatched (SetWorkspaces atom_workspaces) (store (fetchWorkspacesSaga t))
        \<in> set (trace (fetchWorkspacesSaga t)))
   \<and> (map (documents (store (vanilla_fetchWorkspaces r)))
         [''doc-workspace-1-1'', ''doc-workspace-1-2'', ''doc-workspace-2-1'',
          ''doc-workspace-3-1'', ''doc-workspace-3-2'']
       = map Some (concat (map embedded_documents atom_workspaces))
    \<and> map (documents (store (snd (atom_fetchWorkspaces a))))
         [''doc-workspace-1-1'', ''doc-workspace-1-2'', ''doc-workspace-2-1'',
          ''doc-workspace-3-1'', ''doc-workspace-3-2'']
       = map Some (concat (map embedded_documents atom_workspaces))
    \<and> map (documents (store (snd (thunks_fetchWorkspaces t))))
         [''doc-workspace-1-1'', ''doc-workspace-1-2'', ''doc-workspace-2-1'',
          ''doc-workspace-3-1'', ''doc-workspace-3-2'']
       = map Some (concat (map embedded_documents atom_workspaces))
    \<and> map (documents (store (fetchWorkspacesSaga t)))
         [''doc-workspace-1-1'', ''doc-workspace-1-2'', ''doc-workspace-2-1'',
          ''doc-workspace-3-1'', ''doc-workspace-3-2'']
       = map Some (concat (map embedded_documents atom_workspaces))
    \<and> map (documents (store (snd (fetchWorkspacesEpic t))))
         [''doc-workspace-1-1'', ''doc-workspace-1-2'', ''doc-workspace-2-1'',
          ''doc-workspace-3-1'', ''doc-workspace-3-2'']
       = map Some (concat (map embedded_documents atom_workspaces))
    \<and> map (documents (store (zustand_fetchWorkspaces z)))
         [''doc-workspace-1-1'', ''doc-workspace-1-2'', ''doc-workspace-2-1'',
          ''doc-workspace-3-1'', ''doc-workspace-3-2'']
       = map Some (concat (map embedded_documents atom_workspaces))
    \<and> map (keystone_documents (store (keystone_fetchWorkspaces k)))
         [''doc-workspace-1-1'', ''doc-workspace-1-2'', ''doc-workspace-2-1'',
          ''doc-workspace-3-1'', ''doc-workspace-3-2'']
       = map Some (concat (map embedded_documents atom_workspaces)))"
  using fixtures_agree [of t a] fixture_shape
    atom_fetch_workspaces [of a] zustand_fetch_workspaces [of z] spec_workspaces_dom
    vanilla_fetch_workspaces [of r] thunks_fetch_workspaces [of t] epics_fetch_workspaces [of t]
    keystone_fetch_workspaces [of k] sagas_fetch_puts_fixture [of t]
    vanilla_fetch_sets_fixture [of r] atom_fetch_sets_fixture [of a]
    thunks_fetch_sets_fixture [of t] sagas_fetch_sets_fixture [of t]
    epics_fetch_sets_fixture [of t] zustand_fetch_sets_fixture [of z]
    keystone_fetch_sets_fixture [of k]
  by blast

subsection \<open>Attaching a document to a workspace\<close>






subsection \<open>Updates that name a missing document\<close>

text \<open>When the \<^verbatim>\<open>documentId\<close> is not a key of the documents and names no member of
  \<^verbatim>\<open>Object.prototype\<close>, the lookup is \<^verbatim>\<open>undefined\<close> and both updates of the vanilla
  reducer return the state they were given, as does the page update of the Effect-Atom
  service (which the service applies only to the id of the document it has just
  inserted). When it names such a member, both updates of the vanilla reducer throw.\<close>

lemma missing_document_off_prototype:
  assumes "documents s documentId = None"
      and "documentId \<notin> set object_prototype_keys"
  shows "vanilla_documentsReducer (documents s) (vanilla_addPage documentId page)
           = Inr (documents s)
       \<and> vanilla_documentsReducer (documents s)
             (vanilla_addDocumentToWorkspace documentId workspaceId) = Inr (documents s)
       \<and> vanilla_rootReducer s (vanilla_addPage documentId page) = Inr s
       \<and> vanilla_rootReducer s (vanilla_addDocumentToWorkspace documentId workspaceId) = Inr s
       \<and> atom_createPage_update documentId page (documents s) = documents s"
  using assms
  by (simp add: vanilla_rootReducer_def vanilla_addPage_def js_get_def
        vanilla_addDocumentToWorkspace_def atom_createPage_update_def)

lemma missing_document_on_prototype:
  assumes "documents s documentId = None"
      and "documentId \<in> set object_prototype_keys"
  shows "isl (vanilla_documentsReducer (documents s) (vanilla_addPage documentId page))
       \<and> isl (vanilla_documentsReducer (documents s)
                (vanilla_addDocumentToWorkspace documentId workspaceId))"
  using assms
  by (simp add: vanilla_addPage_def js_get_def vanilla_addDocumentToWorkspace_def)

text \<open>
  Claim C10 says that in the vanilla Redux variant an add-page or
  add-document-to-workspace update whose \<^verbatim>\<open>documentId\<close> is not a key of the documents
  state leaves the state unchanged and raises no error. The reducer guards both updates
  with \<^verbatim>\<open>if (!existing) return state\<close>, but it reads \<^verbatim>\<open>existing\<close> with
  \<^verbatim>\<open>state[documentId]\<close>, which also finds inherited members. On the initial, empty
  documents state the id \<^verbatim>\<open>constructor\<close> is not a key, the guard does not fire, and both
  updates throw a \<^verbatim>\<open>TypeError\<close>, out of the reducer and out of the store's dispatch.
\<close>

theorem missing_document_prototype_key_throws:
  "documents initialRootState ''constructor'' = None
   \<and> vanilla_documentsReducer (documents initialRootState)
        (vanilla_addPage ''constructor''
           \<lparr>page_id = ''page-1'', page_title = ''New Page'', page_content = ''''\<rparr>)
       = Inl (TypeError ''existing.pages is not iterable'')
   \<and> vanilla_documentsReducer (documents initialRootState)
        (vanilla_addDocumentToWorkspace ''constructor'' ''workspace-1'')
       = Inl (TypeError ''Cannot read properties of undefined (reading includes)'')
   \<and> fst (vanilla_dispatch
             (vanilla_addPage ''constructor''
                \<lparr>page_id = ''page-1'', page_title = ''New Page'', page_content = ''''\<rparr>)
             (start initialRootState))
       = Inl (TypeError ''existing.pages is not iterable'')
   \<and> fst (vanilla_dispatch (vanilla_addDocumentToWorkspace ''constructor'' ''workspace-1'')
             (start initialRootState))
       = Inl (TypeError ''Cannot read properties of undefined (reading includes)'')"
  by (simp add: initialRootState_def vanilla_defs object_prototype_keys_def run_defs)

end
